theory Spec2Isabelle
  imports Complex_Main "HOL-Library.Sublist" "HOL-Library.AList"
begin

section \<open>Python values used by both stages\<close>

text \<open>
  A Python \<open>str\<close> is modelled as a HOL \<open>string\<close> in which every \<open>char\<close> is one code
  point of the range U+0000..U+00FF: the pound sign is the single character
  \<open>CHR 0xA3\<close>, and \<open>text[1:]\<close> is \<open>drop 1\<close>. Code points above U+00FF are outside the model.
\<close>

datatype pyerror =
    KeyError | AttributeError | TypeError | ValueError | IndexError
  | OSError | RequestException

definition startswith :: "string \<Rightarrow> string \<Rightarrow> bool" where
  "startswith s p = prefix p s"

definition endswith :: "string \<Rightarrow> string \<Rightarrow> bool" where
  "endswith s p = suffix p s"

text \<open>\<open>sub in s\<close> on strings.\<close>

definition contains :: "string \<Rightarrow> string \<Rightarrow> bool" where
  "contains s sub = sublist sub s"

text \<open>
  \<open>str.lower()\<close>: within U+0000..U+00FF the letters with a lower-case partner in the
  range are A..Z and U+00C0..U+00DE without the multiplication sign U+00D7.
\<close>

definition lower_char :: "char \<Rightarrow> char" where
  "lower_char c =
     (let n = (of_char c :: nat)
      in if (65 \<le> n \<and> n \<le> 90) \<or> (192 \<le> n \<and> n \<le> 222 \<and> n \<noteq> 215)
         then char_of (n + 32) else c)"

definition lower :: "string \<Rightarrow> string" where
  "lower s = map lower_char s"

text \<open>\<open>str.strip()\<close> removes the characters with \<open>isspace()\<close> from both ends.\<close>

definition isspace :: "char \<Rightarrow> bool" where
  "isspace c =
     (let n = (of_char c :: nat)
      in (9 \<le> n \<and> n \<le> 13) \<or> (28 \<le> n \<and> n \<le> 32) \<or> n = 133 \<or> n = 160)"

definition strip :: "string \<Rightarrow> string" where
  "strip s = rev (dropWhile isspace (rev (dropWhile isspace s)))"

text \<open>\<open>os.path.join(a, b)\<close> on a POSIX system, for a relative \<open>b\<close>.\<close>

definition path_join :: "string \<Rightarrow> string \<Rightarrow> string" where
  "path_join a b =
     (if a = [] then b else if last a = CHR ''/'' then a @ b else a @ ''/'' @ b)"

subsection \<open>\<open>urllib.parse.urljoin\<close>\<close>

text \<open>
  The library function, after CPython 3.8 to 3.12 (\<open>urlsplit\<close>, \<open>urlparse\<close>,
  \<open>urlunparse\<close>, \<open>urljoin\<close>), for the evaluation of concrete URLs. Left out: the
  stripping of leading control characters and blanks and of tab and newline
  characters, and the validation of the network location (which raises ValueError
  on a malformed IPv6 literal).
\<close>

fun split_on :: "char \<Rightarrow> string \<Rightarrow> string list" where
  "split_on c [] = [[]]"
| "split_on c (x # xs) =
     (if x = c then [] # split_on c xs
      else (case split_on c xs of [] \<Rightarrow> [[x]] | y # ys \<Rightarrow> (x # y) # ys))"

fun join_with :: "string \<Rightarrow> string list \<Rightarrow> string" where
  "join_with sep [] = []"
| "join_with sep [x] = x"
| "join_with sep (x # y # ys) = x @ sep @ join_with sep (y # ys)"

definition isalpha_ascii :: "char \<Rightarrow> bool" where
  "isalpha_ascii c =
     (let n = (of_char c :: nat) in (65 \<le> n \<and> n \<le> 90) \<or> (97 \<le> n \<and> n \<le> 122))"

definition scheme_char :: "char \<Rightarrow> bool" where
  "scheme_char c =
     (let n = (of_char c :: nat)
      in isalpha_ascii c \<or> (48 \<le> n \<and> n \<le> 57) \<or> c \<in> set ''+-.'')"

definition uses_relative :: "string list" where
  "uses_relative =
     [[], ''ftp'', ''http'', ''gopher'', ''nntp'', ''imap'', ''wais'', ''file'', ''https'',
      ''shttp'', ''mms'', ''prospero'', ''rtsp'', ''rtspu'', ''sftp'', ''svn'', ''svn+ssh'',
      ''ws'', ''wss'']"

definition uses_netloc :: "string list" where
  "uses_netloc =
     [[], ''ftp'', ''http'', ''gopher'', ''nntp'', ''telnet'', ''imap'', ''wais'', ''file'',
      ''mms'', ''https'', ''shttp'', ''snews'', ''prospero'', ''rtsp'', ''rtspu'', ''rsync'',
      ''svn'', ''svn+ssh'', ''sftp'', ''nfs'', ''git'', ''git+ssh'', ''ws'', ''wss'']"

definition uses_params :: "string list" where
  "uses_params =
     [[], ''ftp'', ''hdl'', ''prospero'', ''http'', ''imap'', ''https'', ''shttp'', ''rtsp'',
      ''rtspu'', ''sip'', ''sips'', ''mms'', ''sftp'', ''tel'']"

text \<open>The six components: scheme, netloc, path, params, query, fragment.\<close>

record parsed_url =
  scheme :: string
  netloc :: string
  path :: string
  params :: string
  query :: string
  fragment :: string

text \<open>
  \<open>s.split(c, 1)\<close> for an \<open>s\<close> that may or may not contain \<open>c\<close>: the part before the
  first \<open>c\<close> and the part after it (empty without a \<open>c\<close>).
\<close>

definition split_first :: "char \<Rightarrow> string \<Rightarrow> string \<times> string" where
  "split_first c s = (takeWhile (\<lambda>x. x \<noteq> c) s, drop 1 (dropWhile (\<lambda>x. x \<noteq> c) s))"

text \<open>\<open>_splitparams\<close>: the parameters are what follows the first \<open>;\<close> of the last segment.\<close>

definition splitparams :: "string \<Rightarrow> string \<times> string" where
  "splitparams url =
     (let last_segment = last (split_on CHR ''/'' url);
          front = take (length url - length last_segment) url
      in if CHR '';'' \<in> set last_segment
         then (front @ fst (split_first CHR '';'' last_segment),
               snd (split_first CHR '';'' last_segment))
         else (url, []))"

definition urlparse :: "string \<Rightarrow> string \<Rightarrow> parsed_url" where
  "urlparse url default_scheme =
     (let pre = takeWhile (\<lambda>x. x \<noteq> CHR '':'') url;
          has_scheme = (pre \<noteq> [] \<and> length pre < length url \<and> list_all isalpha_ascii (take 1 url)
                        \<and> list_all scheme_char pre);
          sch = (if has_scheme then lower pre else default_scheme);
          url1 = (if has_scheme then drop (length pre + 1) url else url);
          has_netloc = (take 2 url1 = ''//'');
          nl = (if has_netloc then takeWhile (\<lambda>x. x \<notin> set ''/?#'') (drop 2 url1) else []);
          url2 = (if has_netloc then dropWhile (\<lambda>x. x \<notin> set ''/?#'') (drop 2 url1) else url1);
          url3 = fst (split_first CHR ''#'' url2);
          frag = snd (split_first CHR ''#'' url2);
          url4 = fst (split_first CHR ''?'' url3);
          qu = snd (split_first CHR ''?'' url3);
          with_params = (sch \<in> set uses_params \<and> CHR '';'' \<in> set url4);
          url5 = (if with_params then fst (splitparams url4) else url4);
          pa = (if with_params then snd (splitparams url4) else [])
      in \<lparr>scheme = sch, netloc = nl, path = url5, params = pa, query = qu, fragment = frag\<rparr>)"

definition urlunparse :: "parsed_url \<Rightarrow> string" where
  "urlunparse u =
     (let url0 = (if params u \<noteq> [] then path u @ '';'' @ params u else path u);
          url1 = (if netloc u \<noteq> [] \<or>
                     (scheme u \<noteq> [] \<and> scheme u \<in> set uses_netloc \<and> take 2 url0 \<noteq> ''//'')
                  then ''//'' @ netloc u @
                       (if url0 \<noteq> [] \<and> take 1 url0 \<noteq> ''/'' then ''/'' @ url0 else url0)
                  else url0);
          url2 = (if scheme u \<noteq> [] then scheme u @ '':'' @ url1 else url1);
          url3 = (if query u \<noteq> [] then url2 @ ''?'' @ query u else url2)
      in if fragment u \<noteq> [] then url3 @ ''#'' @ fragment u else url3)"

text \<open>\<open>segments[1:-1] = filter(None, segments[1:-1])\<close>.\<close>

definition filter_middle :: "string list \<Rightarrow> string list" where
  "filter_middle segments =
     (case segments of
        [] \<Rightarrow> []
      | [a] \<Rightarrow> [a]
      | a # rest \<Rightarrow> a # filter (\<lambda>x. x \<noteq> []) (butlast rest) @ [last rest])"

text \<open>The loop over the segments: \<open>..\<close> pops (nothing, on an empty list), \<open>.\<close> is skipped.\<close>

fun resolve_segments :: "string list \<Rightarrow> string list \<Rightarrow> string list" where
  "resolve_segments resolved_path [] = resolved_path"
| "resolve_segments resolved_path (seg # segs) =
     (if seg = ''..'' then resolve_segments (butlast resolved_path) segs
      else if seg = ''.'' then resolve_segments resolved_path segs
      else resolve_segments (resolved_path @ [seg]) segs)"

definition py_urljoin :: "string \<Rightarrow> string \<Rightarrow> string" where
  "py_urljoin base url =
     (if base = [] then url
      else if url = [] then base
      else
        let b = urlparse base [];
            u = urlparse url (scheme b)
        in if scheme u \<noteq> scheme b \<or> scheme u \<notin> set uses_relative then url
           else if scheme u \<in> set uses_netloc \<and> netloc u \<noteq> [] then urlunparse u
           else
             let nl = (if scheme u \<in> set uses_netloc then netloc b else netloc u)
             in if path u = [] \<and> params u = []
                then urlunparse (u\<lparr>netloc := nl, path := path b, params := params b,
                                   query := (if query u = [] then query b else query u)\<rparr>)
                else
                  let base_parts0 = split_on CHR ''/'' (path b);
                      base_parts = (if last base_parts0 \<noteq> [] then butlast base_parts0
                                    else base_parts0);
                      segments = (if take 1 (path u) = ''/'' then split_on CHR ''/'' (path u)
                                  else filter_middle (base_parts @ split_on CHR ''/'' (path u)));
                      resolved0 = resolve_segments [] segments;
                      resolved_path = (if last segments \<in> {''.'', ''..''} then resolved0 @ [[]]
                                       else resolved0);
                      joined = join_with ''/'' resolved_path
                  in urlunparse (u\<lparr>netloc := nl,
                                      path := (if joined = [] then ''/'' else joined)\<rparr>))"

section \<open>The pandas operations the cleaner calls\<close>

text \<open>
  A DataFrame is a list of named, typed columns, as \<open>pd.read_csv\<close> delivers it: a
  column is either numeric (dtype int64 or float64; a missing value is NaN) or of
  dtype object holding strings (a missing value is NaN as well). A number is a
  rational here: the rounding of float64 is not modelled. \<open>None\<close> is NaN. All columns
  of a frame have the same number of rows (\<open>wf_frame\<close>).
\<close>

datatype column =
    Numeric "rat option list"
  | Object "string option list"

type_synonym dataframe = "(string \<times> column) list"

fun col_length :: "column \<Rightarrow> nat" where
  "col_length (Numeric xs) = length xs"
| "col_length (Object ss) = length ss"

definition nrows :: "dataframe \<Rightarrow> nat" where
  "nrows df = (case df of [] \<Rightarrow> 0 | (_, c) # _ \<Rightarrow> col_length c)"

definition wf_frame :: "dataframe \<Rightarrow> bool" where
  "wf_frame df = list_all (\<lambda>(_, c). col_length c = nrows df) df"

text \<open>\<open>df[name]\<close> and \<open>df[name] = col\<close>.\<close>

definition getitem :: "dataframe \<Rightarrow> string \<Rightarrow> pyerror + column" where
  "getitem df name = (case map_of df name of None \<Rightarrow> Inl KeyError | Some c \<Rightarrow> Inr c)"

definition setitem :: "dataframe \<Rightarrow> string \<Rightarrow> column \<Rightarrow> dataframe" where
  "setitem df name c = AList.update name c df"

text \<open>Boolean indexing \<open>df[mask]\<close>: the rows whose mask entry is true, in order.\<close>

fun select_rows :: "bool list \<Rightarrow> 'a list \<Rightarrow> 'a list" where
  "select_rows (b # bs) (x # xs) = (if b then x # select_rows bs xs else select_rows bs xs)"
| "select_rows _ _ = []"

fun select_col :: "bool list \<Rightarrow> column \<Rightarrow> column" where
  "select_col m (Numeric xs) = Numeric (select_rows m xs)"
| "select_col m (Object ss) = Object (select_rows m ss)"

definition bool_index :: "dataframe \<Rightarrow> bool list \<Rightarrow> dataframe" where
  "bool_index df m = map (\<lambda>(name, c). (name, select_col m c)) df"

text \<open>The element-wise \<open>&\<close> of two boolean Series.\<close>

definition mask_and :: "bool list \<Rightarrow> bool list \<Rightarrow> bool list" where
  "mask_and m1 m2 = map (\<lambda>(a, b). a \<and> b) (zip m1 m2)"

fun notna :: "column \<Rightarrow> bool list" where
  "notna (Numeric xs) = map (\<lambda>x. x \<noteq> None) xs"
| "notna (Object ss) = map (\<lambda>s. s \<noteq> None) ss"

text \<open>\<open>.all(axis=1)\<close> over the \<open>notna\<close> masks of the subset's columns, for a frame of \<open>n\<close> rows.\<close>

fun all_axis1 :: "nat \<Rightarrow> bool list list \<Rightarrow> bool list" where
  "all_axis1 n [] = replicate n True"
| "all_axis1 n (m # ms) = mask_and m (all_axis1 n ms)"

text \<open>
  \<open>df.dropna(subset=names)\<close>: KeyError when a name is not a column; otherwise the rows
  in which every column of the subset holds a value.
\<close>

definition dropna :: "dataframe \<Rightarrow> string list \<Rightarrow> pyerror + dataframe" where
  "dropna df subset_names =
     (case those (map (map_of df) subset_names) of
        None \<Rightarrow> Inl KeyError
      | Some cols \<Rightarrow> Inr (bool_index df (all_axis1 (nrows df) (map notna cols))))"

text \<open>
  \<open>col.str.replace('\<pounds>', '')\<close>: the \<open>.str\<close> accessor raises AttributeError on a numeric
  column; on strings every occurrence of the one-character pattern is removed, and
  NaN stays NaN.
\<close>

definition pound :: char where
  "pound = CHR 0xA3"

fun str_replace_pound :: "column \<Rightarrow> pyerror + column" where
  "str_replace_pound (Numeric xs) = Inl AttributeError"
| "str_replace_pound (Object ss) = Inr (Object (map (map_option (filter (\<lambda>c. c \<noteq> pound))) ss))"

text \<open>
  \<open>pd.to_numeric(col, errors='coerce')\<close>. How pandas reads one string as a number is
  the parameter \<open>P\<close> (\<open>None\<close>: not a number, coerced to NaN). A numeric column is
  returned as it is.
\<close>

fun to_numeric :: "(string \<Rightarrow> rat option) \<Rightarrow> column \<Rightarrow> column" where
  "to_numeric P (Numeric xs) = Numeric xs"
| "to_numeric P (Object ss) = Numeric (map (\<lambda>s. case s of None \<Rightarrow> None | Some t \<Rightarrow> P t) ss)"

text \<open>
  \<open>col >= q\<close> and \<open>col <= q\<close>: a comparison with NaN is false; comparing a string with a
  number raises TypeError.
\<close>

fun series_ge :: "column \<Rightarrow> rat \<Rightarrow> pyerror + bool list" where
  "series_ge (Numeric xs) q = Inr (map (\<lambda>x. case x of None \<Rightarrow> False | Some v \<Rightarrow> q \<le> v) xs)"
| "series_ge (Object ss) q = Inl TypeError"

fun series_le :: "column \<Rightarrow> rat \<Rightarrow> pyerror + bool list" where
  "series_le (Numeric xs) q = Inr (map (\<lambda>x. case x of None \<Rightarrow> False | Some v \<Rightarrow> v \<le> q) xs)"
| "series_le (Object ss) q = Inl TypeError"

text \<open>
  A plain decimal literal (an optional sign, digits, at most one point, with a digit
  on at least one side of it) read as a number: what \<open>pd.to_numeric\<close>
  returns on such a string. It stands for \<open>P\<close> where a concrete frame is evaluated;
  the other spellings pandas accepts (exponents, \<open>inf\<close>, surrounding blanks) are
  not covered by it.
\<close>

definition digit_val :: "char \<Rightarrow> nat option" where
  "digit_val c =
     (let n = (of_char c :: nat) in if 48 \<le> n \<and> n \<le> 57 then Some (n - 48) else None)"

fun digits_val :: "nat \<Rightarrow> string \<Rightarrow> nat option" where
  "digits_val acc [] = Some acc"
| "digits_val acc (c # cs) =
     (case digit_val c of None \<Rightarrow> None | Some d \<Rightarrow> digits_val (10 * acc + d) cs)"

definition unsigned_decimal :: "string \<Rightarrow> rat option" where
  "unsigned_decimal s =
     (let ip = takeWhile (\<lambda>c. c \<noteq> CHR ''.'') s;
          rest = dropWhile (\<lambda>c. c \<noteq> CHR ''.'') s;
          fp = drop 1 rest
      in if ip = [] \<and> fp = [] then None
         else (case (digits_val 0 ip, digits_val 0 fp) of
                 (Some i, Some f) \<Rightarrow> Some (of_nat i + of_nat f / 10 ^ length fp)
               | _ \<Rightarrow> None))"

definition parse_decimal :: "string \<Rightarrow> rat option" where
  "parse_decimal s =
     (case s of
        [] \<Rightarrow> None
      | c # cs \<Rightarrow>
          if c = CHR ''-'' then map_option uminus (unsigned_decimal cs)
          else if c = CHR ''+'' then unsigned_decimal cs
          else unsigned_decimal s)"

section \<open>processing/processor.py\<close>

subsection \<open>\<open>BookProcessor._clean_data\<close>\<close>

text \<open>Sequencing of steps that may raise: the first error ends the function.\<close>

definition bind :: "pyerror + 'a \<Rightarrow> ('a \<Rightarrow> pyerror + 'b) \<Rightarrow> pyerror + 'b" where
  "bind m f = (case m of Inl e \<Rightarrow> Inl e | Inr x \<Rightarrow> f x)"

text \<open>
  The lambda applied to Availability. \<open>str(x)\<close> of a string is the string; the \<open>str\<close>
  of a number or of NaN consists of digits, a sign, a point, \<open>e\<close>, \<open>inf\<close> or \<open>nan\<close> and
  never contains \<open>in stock\<close>.
\<close>

definition normalize_availability :: "string \<Rightarrow> string" where
  "normalize_availability x =
     (if contains (lower x) ''in stock'' then ''In Stock'' else ''Out of Stock'')"

fun apply_availability :: "column \<Rightarrow> column" where
  "apply_availability (Object ss) =
     Object (map (\<lambda>x. Some (normalize_availability (case x of None \<Rightarrow> ''nan'' | Some s \<Rightarrow> s))) ss)"
| "apply_availability (Numeric xs) = Object (map (\<lambda>_. Some ''Out of Stock'') xs)"

definition clean_data :: "(string \<Rightarrow> rat option) \<Rightarrow> dataframe \<Rightarrow> pyerror + dataframe" where
  "clean_data P df =
     bind (dropna df [''Title'', ''Price'', ''Rating'', ''Availability'', ''URL'']) (\<lambda>df1.
     bind (getitem df1 ''Price'') (\<lambda>price.
     bind (str_replace_pound price) (\<lambda>stripped.
     let df2 = setitem df1 ''Price'' (to_numeric P stripped) in
     bind (getitem df2 ''Rating'') (\<lambda>rating.
     let df3 = setitem df2 ''Rating'' (to_numeric P rating) in
     bind (getitem df3 ''Rating'') (\<lambda>r1.
     bind (series_ge r1 1) (\<lambda>ge.
     bind (getitem df3 ''Rating'') (\<lambda>r2.
     bind (series_le r2 5) (\<lambda>le.
     let df4 = bool_index df3 (mask_and ge le) in
     bind (getitem df4 ''Availability'') (\<lambda>availability.
     Inr (setitem df4 ''Availability'' (apply_availability availability)))))))))))"

subsection \<open>\<open>BookProcessor.process_data\<close> and \<open>lambdaHandler\<close>\<close>

text \<open>
  What the processing stage reads from and writes to its surroundings.
  \<open>processed_data_dir\<close> is \<open>ProcessingConfig.PROCESSED_DATA_DIR\<close>, whose module is not
  among the sources: a parameter. \<open>run_raw_data\<close> is the list \<open>raw_data_files\<close> of
  \<open>run_raw_data.json\<close> as pairs (id, path), \<open>None\<close> when the file cannot be opened or
  parsed. \<open>read_csv\<close> is \<open>pd.read_csv\<close> on the file system: an error when it raises.
  \<open>numeric_parser\<close> is how \<open>pd.to_numeric\<close> reads one string, \<open>to_parquet_ok\<close> whether
  \<open>df.to_parquet\<close> succeeds, and \<open>parquet_files\<close> the content of the Parquet files
  written so far.
\<close>

record processing_world =
  processed_data_dir :: string
  makedirs_ok :: bool
  run_raw_data :: "(string \<times> string) list option"
  read_csv :: "string \<Rightarrow> pyerror + dataframe"
  numeric_parser :: "string \<Rightarrow> rat option"
  to_parquet_ok :: "dataframe \<Rightarrow> string \<Rightarrow> bool"
  parquet_files :: "string \<Rightarrow> dataframe option"

text \<open>Every exception inside \<open>process_data\<close> is caught there, logged, and turned into \<open>None\<close>.\<close>

definition process_data :: "processing_world \<Rightarrow> string \<Rightarrow> string option \<times> processing_world" where
  "process_data w input_csv =
     (case bind (read_csv w input_csv) (clean_data (numeric_parser w)) of
        Inl e \<Rightarrow> (None, w)
      | Inr df \<Rightarrow>
          let output_parquet = path_join (processed_data_dir w) ''books_data.parquet''
          in if to_parquet_ok w df output_parquet
             then (Some output_parquet,
                   w\<lparr>parquet_files := (parquet_files w)(output_parquet \<mapsto> df)\<rparr>)
             else (None, w))"

text \<open>
  The result object of both handlers: the status code and, from the JSON body, the
  message, the path (\<open>parquet_path\<close> or \<open>csv_path\<close>, \<open>None\<close> for null or absent) and the
  error (present in the body of the \<open>except\<close> branch only).
\<close>

record response =
  statusCode :: int
  message :: string
  body_path :: "string option"
  body_error :: "pyerror option"

definition processing_failed :: "pyerror \<Rightarrow> response" where
  "processing_failed e =
     \<lparr>statusCode = 500, message = ''Processing failed'', body_path = None, body_error = Some e\<rparr>"

text \<open>
  \<open>lambdaHandler\<close> of processor.py; \<open>file_id\<close> is
  \<open>event.get('processing_input', {}).get('raw_data_id')\<close>.
\<close>

definition lambdaHandler_processing ::
    "processing_world \<Rightarrow> string option \<Rightarrow> response \<times> processing_world" where
  "lambdaHandler_processing w file_id =
     (case run_raw_data w of
        None \<Rightarrow> (processing_failed OSError, w)
      | Some raw_data_files \<Rightarrow>
          (case find (\<lambda>f. Some (fst f) = file_id) raw_data_files of
             None \<Rightarrow> (processing_failed ValueError, w)
           | Some file_config \<Rightarrow>
               if \<not> makedirs_ok w then (processing_failed OSError, w)
               else (case process_data w (snd file_config) of
                       (parquet_path, w') \<Rightarrow>
                         (\<lparr>statusCode = 200, message = ''Processing completed successfully'',
                           body_path = parquet_path, body_error = None\<rparr>, w'))))"

section \<open>scrapping/config.py\<close>

text \<open>
  The class attributes of \<open>ScrapingConfig\<close>. \<open>scrape_books\<close> reads \<open>MAX_PAGES\<close>, which the
  class does not define: \<open>None\<close> is the absent attribute, whose lookup raises
  AttributeError.
\<close>

record ScrapingConfig =
  MAX_RETRIES :: int
  REQUEST_TIMEOUT :: int
  BASE_URL :: string
  MAX_PAGES :: "int option"

definition shipped_config :: ScrapingConfig where
  "shipped_config =
     \<lparr>MAX_RETRIES = 3, REQUEST_TIMEOUT = 10, BASE_URL = ''http://books.toscrape.com/'',
      MAX_PAGES = None\<rparr>"

section \<open>scrapping/scrapper.py\<close>

subsection \<open>Parsed pages and the network\<close>

text \<open>
  One \<open>article.product_pod\<close> of a listing page, as the lookups of
  \<open>_extract_book_details\<close> see it; \<open>None\<close> is a lookup that raises (a missing tag or
  attribute):
  \<^item> \<open>title_attr\<close>, \<open>href_attr\<close>: \<open>book.find('h3').find('a')['title']\<close> and \<open>['href']\<close>;
  \<^item> \<open>price_text\<close>: the \<open>.text\<close> of \<open>p.price_color\<close> inside \<open>div.product_price\<close>;
  \<^item> \<open>rating_classes\<close>: the class list of \<open>p.star-rating\<close>;
  \<^item> \<open>availability_text\<close>: the \<open>.text\<close> of \<open>p.instock.availability\<close>.
\<close>

record book_node =
  title_attr :: "string option"
  price_text :: "string option"
  rating_classes :: "string list option"
  availability_text :: "string option"
  href_attr :: "string option"

text \<open>
  A parsed document, as the queries of the scraper see it:
  \<^item> \<open>product_pods\<close>: \<open>find_all('article', class_='product_pod')\<close>;
  \<^item> \<open>next_href\<close>: \<open>None\<close> when there is no \<open>li.next\<close>, \<open>Some None\<close> when it has no
    \<open>a\<close> with an \<open>href\<close> (the lookup raises), else the \<open>href\<close>;
  \<^item> \<open>breadcrumb_items\<close>: the \<open>.text\<close> of the \<open>li\<close> of \<open>ul.breadcrumb\<close>, \<open>None\<close> without
    such a list;
  \<^item> \<open>category_nav\<close>, \<open>current_category\<close>: the \<open>.text\<close> of the matches of
    \<open>ul.nav-list > li > ul > li > a\<close> and of \<open>... > li.active > a\<close>.
\<close>

record soup =
  product_pods :: "book_node list"
  next_href :: "string option option"
  breadcrumb_items :: "string list option"
  category_nav :: "string list"
  current_category :: "string list"

text \<open>
  \<open>requests.get(url, timeout=...)\<close> followed by \<open>raise_for_status()\<close> and the parse:
  a \<open>RequestException\<close> (transport failure, timeout, non-success status) or a page.
\<close>

datatype http_result = Failed | Page soup

text \<open>
  The requests made so far, oldest first, each with the call site that made it:
  the listing fetch of \<open>scrape_books\<close> or the detail fetch of
  \<open>_extract_book_details\<close>.
\<close>

datatype request = ListingGet string | DetailGet string


text \<open>
  The surroundings of the crawl. \<open>http k url\<close> is the answer of the network to the
  request for \<open>url\<close> made after \<open>k\<close> earlier requests: any behaviour of the network
  over time is one such function. \<open>urljoin\<close> is \<open>urllib.parse.urljoin\<close>.
  \<open>raw_data_dir\<close> is the directory beside the module, \<open>run_scrapper\<close> the list
  \<open>scrapers\<close> of \<open>run_scrapper.json\<close> as pairs (id, url), \<open>None\<close> when the file cannot be
  opened or parsed.
\<close>

record scraping_world =
  config :: ScrapingConfig
  http :: "nat \<Rightarrow> string \<Rightarrow> http_result"
  urljoin :: "string \<Rightarrow> string \<Rightarrow> string"
  raw_data_dir :: string
  can_makedirs :: bool
  can_write_csv :: bool
  run_scrapper :: "(string \<times> string) list option"

record raw_record =
  Title :: string
  Price :: string
  Rating :: int
  Availability :: string
  URL :: string
  Subcategory :: string

subsection \<open>\<open>BookScraper._extract_book_details\<close>\<close>

definition rating_map :: "(string \<times> int) list" where
  "rating_map = [(''One'', 1), (''Two'', 2), (''Three'', 3), (''Four'', 4), (''Five'', 5)]"

text \<open>Lines 40 to 55: the product URL from the \<open>href\<close> of the entry.\<close>

definition product_url :: "(string \<Rightarrow> string \<Rightarrow> string) \<Rightarrow> string \<Rightarrow> string \<Rightarrow> string" where
  "product_url join base_url relative_url =
     (if startswith relative_url ''http'' then relative_url
      else
        let cleaned_relative_url =
              (if startswith relative_url ''../'' then drop 3 relative_url else relative_url)
        in if endswith base_url ''/catalogue/'' then join base_url cleaned_relative_url
           else join base_url (''catalogue/'' @ cleaned_relative_url))"

text \<open>Lines 70 to 83: the two strategies on one fetched detail page.\<close>

definition resolve_strategies :: "soup \<Rightarrow> string \<Rightarrow> string" where
  "resolve_strategies detail_soup subcategory =
     (let s1 = (case breadcrumb_items detail_soup of
                  None \<Rightarrow> subcategory
                | Some lis \<Rightarrow> if 3 \<le> length lis then strip (lis ! 2) else subcategory)
      in if s1 = ''Unknown''
         then (case (category_nav detail_soup, current_category detail_soup) of
                 (_ # _, c # _) \<Rightarrow> strip c
               | _ \<Rightarrow> s1)
         else s1)"

text \<open>
  Lines 61 to 101: the retry loop. The \<open>RequestException\<close> re-raised at line 95 is
  caught at line 100, where it is logged only: both ways out of the loop continue
  at line 103 with the current \<open>subcategory\<close>.
\<close>

function detail_loop ::
    "scraping_world \<Rightarrow> string \<Rightarrow> int \<Rightarrow> string \<Rightarrow> request list \<Rightarrow> string \<times> request list" where
  "detail_loop w url retries subcategory reqs =
     (if retries < MAX_RETRIES (config w) then
        (case http w (length reqs) url of
           Failed \<Rightarrow>
             if MAX_RETRIES (config w) \<le> retries + 1 then (subcategory, reqs @ [DetailGet url])
             else detail_loop w url (retries + 1) subcategory (reqs @ [DetailGet url])
         | Page detail_soup \<Rightarrow>
             let s = resolve_strategies detail_soup subcategory
             in if s \<noteq> ''Unknown'' then (s, reqs @ [DetailGet url])
                else detail_loop w url (retries + 1) s (reqs @ [DetailGet url]))
      else (subcategory, reqs))"
  by pat_completeness auto
termination
  by (relation "measure (\<lambda>(w, url, retries, subcategory, reqs). nat (MAX_RETRIES (config w) - retries))")
     auto

declare detail_loop.simps [simp del]

text \<open>
  Any lookup that raises before the detail fetch ends the function at line 111 with
  \<open>None\<close>: no request has been made by then.
\<close>

definition extract_book_details ::
    "scraping_world \<Rightarrow> string \<Rightarrow> book_node \<Rightarrow> request list \<Rightarrow> raw_record option \<times> request list" where
  "extract_book_details w base_url book reqs =
     (case (title_attr book, price_text book, rating_classes book, availability_text book,
            href_attr book) of
        (Some title, Some ptext, Some classes, Some atext, Some relative_url) \<Rightarrow>
          if length classes < 2 then (None, reqs)
          else
            let price = drop 1 ptext;
                rating = (case map_of rating_map (classes ! 1) of None \<Rightarrow> 0 | Some r \<Rightarrow> r);
                availability = strip atext;
                purl = product_url (urljoin w) base_url relative_url
            in (case detail_loop w purl 0 ''Unknown'' reqs of
                  (subcategory, reqs') \<Rightarrow>
                    (Some \<lparr>Title = title, Price = price, Rating = rating,
                           Availability = availability, URL = purl,
                           Subcategory = subcategory\<rparr>, reqs'))
      | _ \<Rightarrow> (None, reqs))"

subsection \<open>\<open>BookScraper.scrape_books\<close>\<close>

text \<open>Lines 141 to 144: every entry of the page, in order.\<close>

fun extract_all ::
    "scraping_world \<Rightarrow> string \<Rightarrow> book_node list \<Rightarrow> raw_record list \<Rightarrow> request list \<Rightarrow>
      raw_record list \<times> request list" where
  "extract_all w base_url [] books_data reqs = (books_data, reqs)"
| "extract_all w base_url (book # books) books_data reqs =
     (case extract_book_details w base_url book reqs of
        (None, reqs') \<Rightarrow> extract_all w base_url books books_data reqs'
      | (Some book_details, reqs') \<Rightarrow>
          extract_all w base_url books (books_data @ [book_details]) reqs')"



text \<open>
  One pass through the body of the \<open>while\<close> loop (lines 124 to 154), entered with a
  non-empty \<open>page_url\<close>: it ends with \<open>break\<close>, with an exception that leaves the
  loop, or at the end of the body with the new \<open>page_url\<close> and \<open>page_count\<close>.
\<close>

datatype iteration =
    Break "raw_record list" "request list"
  | Raise pyerror "request list"
  | Continue "string option" int "raw_record list" "request list"

definition crawl_iteration ::
    "scraping_world \<Rightarrow> string \<Rightarrow> string \<Rightarrow> int \<Rightarrow> raw_record list \<Rightarrow> request list \<Rightarrow> iteration" where
  "crawl_iteration w base_url page_url page_count books_data reqs =
     (case http w (length reqs) page_url of
        Failed \<Rightarrow> Break books_data (reqs @ [ListingGet page_url])
      | Page soup \<Rightarrow>
          (case extract_all w base_url (product_pods soup) books_data (reqs @ [ListingGet page_url]) of
             (books_data', reqs') \<Rightarrow>
               (case next_href soup of
                  None \<Rightarrow> Continue None page_count books_data' reqs'
                | Some None \<Rightarrow> Raise TypeError reqs'
                | Some (Some next_page_link) \<Rightarrow>
                    Continue (Some (urljoin w page_url next_page_link)) (page_count + 1)
                      books_data' reqs')))"

text \<open>
  The loop condition \<open>page_url and page_count < ScrapingConfig.MAX_PAGES\<close>: a \<open>None\<close> or
  empty \<open>page_url\<close> ends the loop before \<open>MAX_PAGES\<close> is looked up; otherwise the lookup
  of an undefined \<open>MAX_PAGES\<close> raises AttributeError. \<open>pages_left\<close> is the number of
  passes the condition still admits: the measure by which the loop terminates.
\<close>

definition pages_left :: "scraping_world \<Rightarrow> string option \<Rightarrow> int \<Rightarrow> nat" where
  "pages_left w page_url page_count =
     (case page_url of
        None \<Rightarrow> 0
      | Some u \<Rightarrow>
          if u = [] then 0
          else (case MAX_PAGES (config w) of
                  None \<Rightarrow> 0
                | Some max_pages \<Rightarrow> nat (max_pages - page_count)))"

function crawl_loop ::
    "scraping_world \<Rightarrow> string \<Rightarrow> string option \<Rightarrow> int \<Rightarrow> raw_record list \<Rightarrow> request list \<Rightarrow>
      (pyerror + raw_record list) \<times> request list" where
  "crawl_loop w base_url page_url page_count books_data reqs =
     (case page_url of
        None \<Rightarrow> (Inr books_data, reqs)
      | Some u \<Rightarrow>
          if u = [] then (Inr books_data, reqs)
          else (case MAX_PAGES (config w) of
                  None \<Rightarrow> (Inl AttributeError, reqs)
                | Some max_pages \<Rightarrow>
                    if \<not> page_count < max_pages then (Inr books_data, reqs)
                    else (case crawl_iteration w base_url u page_count books_data reqs of
                            Break b l \<Rightarrow> (Inr b, l)
                          | Raise e l \<Rightarrow> (Inl e, l)
                          | Continue p c b l \<Rightarrow> crawl_loop w base_url p c b l)))"
  by pat_completeness auto
termination
proof (relation "measure (\<lambda>(w, base_url, page_url, page_count, books_data, reqs).
                   pages_left w page_url page_count)")
  show "wf (measure (\<lambda>(w, base_url, page_url, page_count, books_data, reqs).
              pages_left w page_url page_count))"
    by simp
next
  fix w :: scraping_world and base_url :: string and page_url :: "string option"
    and page_count :: int and books_data :: "raw_record list" and reqs :: "request list"
    and u max_pages p c b l
  assume u: "page_url = Some u" "u \<noteq> []"
    and m: "MAX_PAGES (config w) = Some max_pages" "\<not> \<not> page_count < max_pages"
    and it: "crawl_iteration w base_url u page_count books_data reqs = Continue p c b l"
  from it have "p = None \<or> c = page_count + 1"
    by (auto simp: crawl_iteration_def split: http_result.splits prod.splits option.splits)
  with u m show "((w, base_url, p, c, b, l), (w, base_url, page_url, page_count, books_data, reqs))
      \<in> measure (\<lambda>(w, base_url, page_url, page_count, books_data, reqs).
            pages_left w page_url page_count)"
    by (auto simp: pages_left_def split: option.splits)
qed

declare crawl_loop.simps [simp del]

text \<open>
  The result of \<open>scrape_books\<close>: the returned path, the requests made, and what the
  run wrote to the CSV file (\<open>None\<close>: nothing was written).
\<close>

record scrape_result =
  csv_path :: "string option"
  requests_made :: "request list"
  csv_file :: "raw_record list option"

text \<open>
  Lines 160 to 174: the accumulated records go to \<open>raw_data/books_data.csv\<close>; a
  failure to write is caught and gives \<open>None\<close>.
\<close>

definition save_csv :: "scraping_world \<Rightarrow> raw_record list \<Rightarrow> request list \<Rightarrow> scrape_result" where
  "save_csv w books_data reqs =
     (if can_write_csv w
      then \<lparr>csv_path = Some (path_join (raw_data_dir w) ''books_data.csv''),
            requests_made = reqs, csv_file = Some books_data\<rparr>
      else \<lparr>csv_path = None, requests_made = reqs, csv_file = None\<rparr>)"

definition scrape_books :: "scraping_world \<Rightarrow> string \<Rightarrow> scrape_result" where
  "scrape_books w base_url =
     (case crawl_loop w base_url (Some base_url) 0 [] [] of
        (Inl e, reqs) \<Rightarrow> \<lparr>csv_path = None, requests_made = reqs, csv_file = None\<rparr>
      | (Inr books_data, reqs) \<Rightarrow> save_csv w books_data reqs)"

subsection \<open>\<open>lambdaHandler\<close> of scrapper.py\<close>

definition scraping_failed :: "pyerror \<Rightarrow> response" where
  "scraping_failed e =
     \<lparr>statusCode = 500, message = ''Scraping failed'', body_path = None, body_error = Some e\<rparr>"

text \<open>
  \<open>scraper_id\<close> is \<open>event.get('scraper_input', {}).get('run_scraper_id')\<close>. A path is
  truthy when it is not \<open>None\<close> and not empty.
\<close>

definition truthy :: "string option \<Rightarrow> bool" where
  "truthy p = (case p of None \<Rightarrow> False | Some s \<Rightarrow> s \<noteq> [])"

definition lambdaHandler_scrapping :: "scraping_world \<Rightarrow> string option \<Rightarrow> response" where
  "lambdaHandler_scrapping w scraper_id =
     (case run_scrapper w of
        None \<Rightarrow> scraping_failed OSError
      | Some scrapers \<Rightarrow>
          (case find (\<lambda>s. Some (fst s) = scraper_id) scrapers of
             None \<Rightarrow> scraping_failed ValueError
           | Some scraper_config \<Rightarrow>
               if \<not> can_makedirs w then scraping_failed OSError
               else
                 let p = csv_path (scrape_books w (snd scraper_config))
                 in \<lparr>statusCode = (if truthy p then 200 else 500),
                     message = (if truthy p then ''Scraping completed successfully''
                                else ''Scraping failed''),
                     body_path = p, body_error = None\<rparr>))"

section \<open>The records of a frame\<close>

text \<open>
  The properties of the cleaner speak of records. \<open>records df\<close> reads a frame by
  rows: one tuple (Title, Price, Rating, Availability, URL) of cells per row.
\<close>

datatype cell = NaN | Str string | Num rat

fun cells :: "column \<Rightarrow> cell list" where
  "cells (Numeric xs) = map (\<lambda>x. case x of None \<Rightarrow> NaN | Some q \<Rightarrow> Num q) xs"
| "cells (Object ss) = map (\<lambda>s. case s of None \<Rightarrow> NaN | Some t \<Rightarrow> Str t) ss"

type_synonym book_row = "cell \<times> cell \<times> cell \<times> cell \<times> cell"

definition records :: "dataframe \<Rightarrow> book_row list" where
  "records df =
     (case (map_of df ''Title'', map_of df ''Price'', map_of df ''Rating'',
            map_of df ''Availability'', map_of df ''URL'') of
        (Some t, Some p, Some r, Some a, Some u) \<Rightarrow>
          zip (cells t) (zip (cells p) (zip (cells r) (zip (cells a) (cells u))))
      | _ \<Rightarrow> [])"

text \<open>A number within the range that line 23 keeps; NaN is not.\<close>

definition in_range :: "rat option \<Rightarrow> bool" where
  "in_range x = (case x of None \<Rightarrow> False | Some q \<Rightarrow> 1 \<le> q \<and> q \<le> 5)"

text \<open>The number \<open>pd.to_numeric\<close> gives for one cell, and the cell of a number.\<close>

fun cell_number :: "(string \<Rightarrow> rat option) \<Rightarrow> cell \<Rightarrow> rat option" where
  "cell_number P NaN = None"
| "cell_number P (Str s) = P s"
| "cell_number P (Num q) = Some q"

definition number_cell :: "rat option \<Rightarrow> cell" where
  "number_cell x = (case x of None \<Rightarrow> NaN | Some q \<Rightarrow> Num q)"

text \<open>
  The cleaner, said by rows: a record is kept when none of its five fields is
  missing and its Rating, read as a number, lies between 1 and 5; a kept record has
  its Price read as a number after the removal of the pound sign (NaN when it is
  not a number), its Rating read as a number, and its Availability normalised.
  The Price plays no part in \<open>keep_record\<close>.
\<close>

fun keep_record :: "(string \<Rightarrow> rat option) \<Rightarrow> book_row \<Rightarrow> bool" where
  "keep_record P (t, p, r, a, u) =
     (t \<noteq> NaN \<and> p \<noteq> NaN \<and> r \<noteq> NaN \<and> a \<noteq> NaN \<and> u \<noteq> NaN \<and> in_range (cell_number P r))"

fun clean_record :: "(string \<Rightarrow> rat option) \<Rightarrow> book_row \<Rightarrow> book_row" where
  "clean_record P (t, p, r, a, u) =
     (t,
      number_cell (case p of Str s \<Rightarrow> P (filter (\<lambda>c. c \<noteq> pound) s) | _ \<Rightarrow> None),
      number_cell (cell_number P r),
      Str (case a of Str s \<Rightarrow> normalize_availability s | _ \<Rightarrow> ''Out of Stock''),
      u)"

text \<open>The mask of two selections in a row: \<open>m2\<close> applied to the rows that \<open>m1\<close> kept.\<close>

fun mask_compose :: "bool list \<Rightarrow> bool list \<Rightarrow> bool list" where
  "mask_compose [] m2 = []"
| "mask_compose (False # m1) m2 = False # mask_compose m1 m2"
| "mask_compose (True # m1) [] = []"
| "mask_compose (True # m1) (b # m2) = b # mask_compose m1 m2"

text \<open>
  The positions, ascending, of the records of a frame that \<open>keep_record\<close> retains, and
  the two fields of a record that \<open>clean_record\<close> leaves as they are.
\<close>

definition survivors :: "(string \<Rightarrow> rat option) \<Rightarrow> dataframe \<Rightarrow> nat list" where
  "survivors P df = filter (\<lambda>i. keep_record P (records df ! i)) [0..<length (records df)]"

fun title_of :: "book_row \<Rightarrow> cell" where
  "title_of (t, p, r, a, u) = t"

fun url_of :: "book_row \<Rightarrow> cell" where
  "url_of (t, p, r, a, u) = u"

section \<open>Concrete inputs\<close>

text \<open>
  The four rows of the test \<open>test_handle_missing_invalid_data\<close> (processing/src/test.py)
  with the URLs of the specification's scenario, as \<open>pd.read_csv\<close> types them: Price is
  a column of strings because of \<open>invalid\<close>, Rating a column of integers.
\<close>

definition scenario_frame :: dataframe where
  "scenario_frame =
     [(''Title'', Object [Some ''Book1'', Some ''Book2'', Some ''Book3'', None]),
      (''Price'', Object [Some ''10.00'', Some ''15.50'', Some ''invalid'', Some ''20.00'']),
      (''Rating'', Numeric [Some 4, Some 6, Some 3, Some 2]),
      (''Availability'', Object [Some ''in stock'', Some ''out of stock'', Some ''in stock'', None]),
      (''URL'', Object [Some ''u1'', Some ''u2'', Some ''u3'', Some ''u4''])]"

definition scenario_cleaned :: dataframe where
  "scenario_cleaned =
     [(''Title'', Object [Some ''Book1'', Some ''Book3'']),
      (''Price'', Numeric [Some 10, None]),
      (''Rating'', Numeric [Some 4, Some 3]),
      (''Availability'', Object [Some ''In Stock'', Some ''In Stock'']),
      (''URL'', Object [Some ''u1'', Some ''u3''])]"

text \<open>One row with a Rating of four and a half stars, a column of dtype float64.\<close>

definition fractional_rating_frame :: dataframe where
  "fractional_rating_frame =
     [(''Title'', Object [Some ''Book7'']),
      (''Price'', Object [Some (pound # ''12.00'')]),
      (''Rating'', Numeric [Some (9 / 2)]),
      (''Availability'', Object [Some ''In stock'']),
      (''URL'', Object [Some ''u7''])]"

text \<open>Two rows: a negative Price with a fractional Rating, and a Price that is no number.\<close>

definition half_star_frame :: dataframe where
  "half_star_frame =
     [(''Title'', Object [Some ''Book5'', Some ''Book6'']),
      (''Price'', Object [Some ''-5.00'', Some ''invalid'']),
      (''Rating'', Numeric [Some (9 / 2), Some 3]),
      (''Availability'', Object [Some ''In stock (3 available)'', Some ''sold'']),
      (''URL'', Object [Some ''u5'', Some ''u6''])]"

definition half_star_cleaned :: dataframe where
  "half_star_cleaned =
     [(''Title'', Object [Some ''Book5'', Some ''Book6'']),
      (''Price'', Numeric [Some (- 5), None]),
      (''Rating'', Numeric [Some (9 / 2), Some 3]),
      (''Availability'', Object [Some ''In Stock'', Some ''Out of Stock'']),
      (''URL'', Object [Some ''u5'', Some ''u6''])]"

text \<open>
  Processing: the file of entry 102 cannot be read (\<open>pd.read_csv\<close> raises
  FileNotFoundError, an OSError), and a file that lacks the Title column.
\<close>

definition missing_file_world :: processing_world where
  "missing_file_world =
     \<lparr>processed_data_dir = ''processed_data'', makedirs_ok = True,
      run_raw_data = Some [(''102'', ''raw_data/books_data.csv'')],
      read_csv = (\<lambda>p. Inl OSError), numeric_parser = parse_decimal,
      to_parquet_ok = (\<lambda>df p. True), parquet_files = (\<lambda>p. None)\<rparr>"

definition no_title_world :: processing_world where
  "no_title_world =
     \<lparr>processed_data_dir = ''processed_data'', makedirs_ok = True,
      run_raw_data = Some [(''102'', ''raw_data/books_data.csv'')],
      read_csv = (\<lambda>p. Inr [(''Price'', Object [Some ''10.00''])]), numeric_parser = parse_decimal,
      to_parquet_ok = (\<lambda>df p. True), parquet_files = (\<lambda>p. None)\<rparr>"

text \<open>Scraping with the configuration as shipped and a network on which every request fails.\<close>

definition offline_world :: scraping_world where
  "offline_world =
     \<lparr>config = shipped_config, http = (\<lambda>k u. Failed), urljoin = py_urljoin,
      raw_data_dir = ''scrapping/raw_data'', can_makedirs = True, can_write_csv = True,
      run_scrapper = Some [(''102'', ''http://books.toscrape.com/'')]\<rparr>"

text \<open>
  A listing entry whose price text begins with the pound sign, and the same entry
  as it reads when the page was decoded as ISO-8859-1: the letter U+00C2 stands
  before the sign.
\<close>

definition pound_book :: book_node where
  "pound_book =
     \<lparr>title_attr = Some ''A Light in the Attic'', price_text = Some (pound # ''51.77''),
      rating_classes = Some [''star-rating'', ''Three''],
      availability_text = Some ''  In stock  '',
      href_attr = Some ''a-light-in-the-attic_1000/index.html''\<rparr>"

definition mojibake_book :: book_node where
  "mojibake_book = pound_book\<lparr>price_text := Some (CHR 0xC2 # pound # ''51.77'')\<rparr>"

text \<open>The configuration as shipped with a scraper entry whose URL is the empty string.\<close>

definition empty_url_world :: scraping_world where
  "empty_url_world = offline_world\<lparr>run_scrapper := Some [(''102'', [])]\<rparr>"

text \<open>
  A catalogue of two pages with a configured ceiling: the first listing page holds
  one entry and a link to \<open>page-2.html\<close>, the detail page of the entry names its
  category in the breadcrumb, and every other request fails.
\<close>

definition catalogue_url :: string where
  "catalogue_url = ''http://books.toscrape.com/catalogue/''"

definition attic_url :: string where
  "attic_url = ''http://books.toscrape.com/catalogue/a-light-in-the-attic_1000/index.html''"

definition second_page_url :: string where
  "second_page_url = ''http://books.toscrape.com/catalogue/page-2.html''"

definition first_listing :: soup where
  "first_listing =
     \<lparr>product_pods = [mojibake_book], next_href = Some (Some ''page-2.html''),
      breadcrumb_items = None, category_nav = [], current_category = []\<rparr>"

definition attic_detail :: soup where
  "attic_detail =
     \<lparr>product_pods = [], next_href = None,
      breadcrumb_items = Some [''Home'', ''Books'', '' Poetry '', ''A Light in the Attic''],
      category_nav = [], current_category = []\<rparr>"

definition attic_record :: raw_record where
  "attic_record =
     \<lparr>Title = ''A Light in the Attic'', Price = pound # ''51.77'', Rating = 3,
      Availability = ''In stock'', URL = attic_url, Subcategory = ''Poetry''\<rparr>"

definition second_page_down :: "int \<Rightarrow> scraping_world" where
  "second_page_down max_pages =
     \<lparr>config = shipped_config\<lparr>MAX_PAGES := Some max_pages\<rparr>,
      http = (\<lambda>k u. if u = catalogue_url then Page first_listing
                      else if u = attic_url then Page attic_detail else Failed),
      urljoin = py_urljoin, raw_data_dir = ''scrapping/raw_data'', can_makedirs = True,
      can_write_csv = True, run_scrapper = Some [(''102'', catalogue_url)]\<rparr>"







section \<open>Properties of the cleaning stage\<close>

subsection \<open>Selections and masks\<close>

lemma select_rows_Nil2: "select_rows m [] = []"
  by (cases m) simp_all

lemma select_rows_map: "select_rows m (map f xs) = map f (select_rows m xs)"
  by (induction m xs rule: select_rows.induct) simp_all

lemma select_rows_zip:
  "select_rows m (zip xs ys) = zip (select_rows m xs) (select_rows m ys)"
proof (induction m xs arbitrary: ys rule: select_rows.induct)
  case (1 b bs x xs)
  then show ?case by (cases ys) simp_all
qed (simp_all add: select_rows_Nil2)

lemma select_rows_filter: "select_rows (map p xs) xs = filter p xs"
  by (induction xs) simp_all

lemma subseq_select_rows: "subseq (select_rows m xs) xs"
  by (induction m xs rule: select_rows.induct) auto

lemma select_rows_compose:
  "select_rows m2 (select_rows m1 xs) = select_rows (mask_compose m1 m2) xs"
proof (induction m1 m2 arbitrary: xs rule: mask_compose.induct)
  case (1 m2)
  then show ?case by (simp add: select_rows_Nil2)
next
  case (2 m1 m2)
  then show ?case by (cases xs) (simp_all add: select_rows_Nil2)
next
  case (3 m1)
  then show ?case by (cases xs) simp_all
next
  case (4 m1 b m2)
  then show ?case by (cases xs) (simp_all add: select_rows_Nil2)
qed

lemma select_col_compose:
  "select_col m2 (select_col m1 c) = select_col (mask_compose m1 m2) c"
  by (cases c) (simp_all add: select_rows_compose)

lemma cells_select_col: "cells (select_col m c) = select_rows m (cells c)"
  by (cases c) (simp_all add: select_rows_map)

lemma mask_and_maps:
  "mask_and (map f xs) (map g ys) = map (\<lambda>(x, y). f x \<and> g y) (zip xs ys)"
  by (auto simp: mask_and_def zip_map_map)

lemma mask_and_replicate: "length m = n \<Longrightarrow> mask_and m (replicate n True) = m"
  by (induction m arbitrary: n) (auto simp: mask_and_def)

lemma range_mask:
  "mask_and (map (\<lambda>x. case x of None \<Rightarrow> False | Some v \<Rightarrow> 1 \<le> v) rs)
     (map (\<lambda>x. case x of None \<Rightarrow> False | Some v \<Rightarrow> v \<le> 5) rs) = map in_range rs"
  by (induction rs) (auto simp: mask_and_def in_range_def split: option.splits)

subsection \<open>Frames\<close>

lemma map_of_bool_index:
  "map_of (bool_index df m) name = map_option (select_col m) (map_of df name)"
  by (induction df) (auto simp: bool_index_def)

lemma map_of_setitem:
  "map_of (setitem df name c) name' = (if name' = name then Some c else map_of df name')"
  by (simp add: setitem_def update_conv')

lemma map_fst_bool_index: "map fst (bool_index df m) = map fst df"
  by (induction df) (auto simp: bool_index_def)

lemma map_fst_setitem:
  "map_of df name \<noteq> None \<Longrightarrow> map fst (setitem df name c) = map fst df"
  by (auto simp: setitem_def update_keys map_of_eq_None_iff)

lemma getitem_Inr: "getitem df name = Inr c \<longleftrightarrow> map_of df name = Some c"
  by (simp add: getitem_def split: option.splits)

lemma bind_Inr: "bind m f = Inr y \<longleftrightarrow> (\<exists>x. m = Inr x \<and> f x = Inr y)"
  by (cases m) (simp_all add: bind_def)

lemma dropna_five:
  "dropna df [n1, n2, n3, n4, n5] = Inr df1 \<longleftrightarrow>
     (\<exists>c1 c2 c3 c4 c5. map_of df n1 = Some c1 \<and> map_of df n2 = Some c2 \<and> map_of df n3 = Some c3
        \<and> map_of df n4 = Some c4 \<and> map_of df n5 = Some c5
        \<and> df1 = bool_index df (all_axis1 (nrows df) [notna c1, notna c2, notna c3, notna c4, notna c5]))"
  by (auto simp: dropna_def split: option.splits)

lemma str_replace_pound_Inr:
  "str_replace_pound c = Inr c' \<longleftrightarrow>
     (\<exists>ss. c = Object ss \<and> c' = Object (map (map_option (filter (\<lambda>x. x \<noteq> pound))) ss))"
  by (cases c) auto

lemma to_numeric_Numeric: "\<exists>xs. to_numeric P c = Numeric xs"
  by (cases c) simp_all

subsection \<open>What a successful run of \<open>_clean_data\<close> returns\<close>

text \<open>
  A run succeeds only on a frame that has the five columns and whose Price column
  holds strings. The result is the frame after both selections, with the three
  converted columns.
\<close>

lemma clean_data_InrE:
  assumes "clean_data P df = Inr out"
  obtains t ps r a u rs m1 m2 where
    "map_of df ''Title'' = Some t" "map_of df ''Price'' = Some (Object ps)"
    "map_of df ''Rating'' = Some r" "map_of df ''Availability'' = Some a"
    "map_of df ''URL'' = Some u"
    "m1 = all_axis1 (nrows df) [notna t, notna (Object ps), notna r, notna a, notna u]"
    "to_numeric P (select_col m1 r) = Numeric rs"
    "m2 = map in_range rs"
    "out = setitem (bool_index (setitem (setitem (bool_index df m1) ''Price''
             (to_numeric P (Object (map (map_option (filter (\<lambda>x. x \<noteq> pound))) (select_rows m1 ps)))))
             ''Rating'' (Numeric rs)) m2)
             ''Availability'' (apply_availability (select_col m2 (select_col m1 a)))"
proof -
  from assms obtain df1 price stripped rating r1 ge r2 le availability where
    s1: "dropna df [''Title'', ''Price'', ''Rating'', ''Availability'', ''URL''] = Inr df1"
    and s2: "getitem df1 ''Price'' = Inr price"
    and s3: "str_replace_pound price = Inr stripped"
    and s4: "getitem (setitem df1 ''Price'' (to_numeric P stripped)) ''Rating'' = Inr rating"
    and s5: "getitem (setitem (setitem df1 ''Price'' (to_numeric P stripped)) ''Rating''
               (to_numeric P rating)) ''Rating'' = Inr r1"
    and s6: "series_ge r1 1 = Inr ge"
    and s7: "getitem (setitem (setitem df1 ''Price'' (to_numeric P stripped)) ''Rating''
               (to_numeric P rating)) ''Rating'' = Inr r2"
    and s8: "series_le r2 5 = Inr le"
    and s9: "getitem (bool_index (setitem (setitem df1 ''Price'' (to_numeric P stripped)) ''Rating''
               (to_numeric P rating)) (mask_and ge le)) ''Availability'' = Inr availability"
    and s10: "out = setitem (bool_index (setitem (setitem df1 ''Price'' (to_numeric P stripped))
               ''Rating'' (to_numeric P rating)) (mask_and ge le)) ''Availability''
               (apply_availability availability)"
    unfolding clean_data_def bind_Inr Let_def by auto
  from s1 obtain t p r a u where cols:
    "map_of df ''Title'' = Some t" "map_of df ''Price'' = Some p"
    "map_of df ''Rating'' = Some r" "map_of df ''Availability'' = Some a"
    "map_of df ''URL'' = Some u"
    and df1: "df1 = bool_index df (all_axis1 (nrows df) [notna t, notna p, notna r, notna a, notna u])"
    unfolding dropna_five by blast
  define m1 where "m1 = all_axis1 (nrows df) [notna t, notna p, notna r, notna a, notna u]"
  have df1': "df1 = bool_index df m1"
    using df1 m1_def by simp
  have price: "price = select_col m1 p"
    using s2 cols by (simp add: df1' getitem_Inr map_of_bool_index)
  obtain ps where p: "p = Object ps"
    using s3 price by (cases p) simp_all
  have stripped: "stripped = Object (map (map_option (filter (\<lambda>x. x \<noteq> pound))) (select_rows m1 ps))"
    using s3 price p by auto
  have rating: "rating = select_col m1 r"
    using s4 cols by (simp add: df1' getitem_Inr map_of_bool_index map_of_setitem)
  obtain rs where rs: "to_numeric P (select_col m1 r) = Numeric rs"
    using to_numeric_Numeric by blast
  have r1: "r1 = Numeric rs" and r2: "r2 = Numeric rs"
    using s5 s7 rating rs by (simp_all add: getitem_Inr map_of_setitem)
  have m2: "mask_and ge le = map in_range rs"
    using s6 s8 r1 r2 range_mask by auto
  have availability: "availability = select_col (map in_range rs) (select_col m1 a)"
    using s9 cols by (simp add: m2 df1' getitem_Inr map_of_bool_index map_of_setitem)
  have "out = setitem (bool_index (setitem (setitem (bool_index df m1) ''Price''
             (to_numeric P (Object (map (map_option (filter (\<lambda>x. x \<noteq> pound))) (select_rows m1 ps)))))
             ''Rating'' (Numeric rs)) (map in_range rs))
             ''Availability'' (apply_availability (select_col (map in_range rs) (select_col m1 a)))"
    using s10 by (simp only: m2 df1' stripped rating rs availability)
  then show thesis
    using cols rs that[of t ps r a u m1 rs "map in_range rs"] unfolding p m1_def by blast
qed

lemma clean_data_columns:
  assumes "clean_data P df = Inr out"
  obtains t ps r a u rs m1 where
    "map_of df ''Title'' = Some t" "map_of df ''Price'' = Some (Object ps)"
    "map_of df ''Rating'' = Some r" "map_of df ''Availability'' = Some a"
    "map_of df ''URL'' = Some u"
    "m1 = all_axis1 (nrows df) [notna t, notna (Object ps), notna r, notna a, notna u]"
    "to_numeric P (select_col m1 r) = Numeric rs"
    "map_of out ''Price'' =
       Some (Numeric (select_rows (map in_range rs)
         (map (\<lambda>s. case s of None \<Rightarrow> None | Some x \<Rightarrow> P (filter (\<lambda>c. c \<noteq> pound) x))
            (select_rows m1 ps))))"
    "map_of out ''Rating'' = Some (Numeric (filter in_range rs))"
    "map_of out ''Availability'' =
       Some (apply_availability (select_col (map in_range rs) (select_col m1 a)))"
    "\<And>name. name \<notin> {''Price'', ''Rating'', ''Availability''} \<Longrightarrow>
       map_of out name = map_option (select_col (mask_compose m1 (map in_range rs))) (map_of df name)"
    "map fst out = map fst df"
proof -
  from assms obtain t ps r a u rs m1 m2 where nf:
    "map_of df ''Title'' = Some t" "map_of df ''Price'' = Some (Object ps)"
    "map_of df ''Rating'' = Some r" "map_of df ''Availability'' = Some a"
    "map_of df ''URL'' = Some u"
    "m1 = all_axis1 (nrows df) [notna t, notna (Object ps), notna r, notna a, notna u]"
    "to_numeric P (select_col m1 r) = Numeric rs"
    "m2 = map in_range rs"
    "out = setitem (bool_index (setitem (setitem (bool_index df m1) ''Price''
             (to_numeric P (Object (map (map_option (filter (\<lambda>x. x \<noteq> pound))) (select_rows m1 ps)))))
             ''Rating'' (Numeric rs)) m2)
             ''Availability'' (apply_availability (select_col m2 (select_col m1 a)))"
    by (rule clean_data_InrE)
  have price: "map_of out ''Price'' =
       Some (Numeric (select_rows (map in_range rs)
         (map (\<lambda>s. case s of None \<Rightarrow> None | Some x \<Rightarrow> P (filter (\<lambda>c. c \<noteq> pound) x))
            (select_rows m1 ps))))"
    unfolding nf(9) nf(8)
    by (simp add: map_of_setitem map_of_bool_index option.case_eq_if option.map_sel
          cong: map_cong) (auto intro!: arg_cong[where f="select_rows _"] split: option.splits)
  have rating: "map_of out ''Rating'' = Some (Numeric (filter in_range rs))"
    unfolding nf(9) nf(8)
    by (simp add: map_of_setitem map_of_bool_index select_rows_filter)
  have avail: "map_of out ''Availability'' =
       Some (apply_availability (select_col (map in_range rs) (select_col m1 a)))"
    unfolding nf(9) nf(8) by (simp add: map_of_setitem)
  have other: "map_of out name = map_option (select_col (mask_compose m1 (map in_range rs))) (map_of df name)"
    if "name \<notin> {''Price'', ''Rating'', ''Availability''}" for name
    using that unfolding nf(9) nf(8)
    by (cases "map_of df name") (simp_all add: map_of_setitem map_of_bool_index select_col_compose)
  have names: "map fst out = map fst df"
    unfolding nf(9) nf(8) using nf(1-5)
    by (simp add: map_fst_setitem map_fst_bool_index map_of_setitem map_of_bool_index)
  show thesis
    using that[OF nf(1-7) price rating avail other names] by blast
qed

subsection \<open>Rows\<close>

lemma length_cells: "length (cells c) = col_length c"
  by (cases c) simp_all

lemma wf_frame_length:
  "wf_frame df \<Longrightarrow> map_of df name = Some c \<Longrightarrow> length (cells c) = nrows df"
  by (auto simp: wf_frame_def list_all_iff length_cells dest!: map_of_SomeD)

lemma notna_cells: "notna c = map (\<lambda>x. x \<noteq> NaN) (cells c)"
  by (cases c) (auto split: option.splits)

lemma dropna_mask_rows:
  assumes "length c1 = n" "length c2 = n" "length c3 = n" "length c4 = n" "length c5 = n"
  shows "all_axis1 n [map (\<lambda>x. x \<noteq> NaN) c1, map (\<lambda>x. x \<noteq> NaN) c2, map (\<lambda>x. x \<noteq> NaN) c3,
                      map (\<lambda>x. x \<noteq> NaN) c4, map (\<lambda>x. x \<noteq> NaN) c5]
         = map (\<lambda>(t, p, r, a, u). t \<noteq> NaN \<and> p \<noteq> NaN \<and> r \<noteq> NaN \<and> a \<noteq> NaN \<and> u \<noteq> NaN)
             (zip c1 (zip c2 (zip c3 (zip c4 c5))))"
proof -
  have "mask_and (map (\<lambda>x. x \<noteq> NaN) c5) (replicate n True) = map (\<lambda>x. x \<noteq> NaN) c5"
    using assms by (simp add: mask_and_replicate)
  then show ?thesis
    by (simp add: mask_and_maps case_prod_unfold)
qed

lemma zip5_maps:
  "zip (map f1 xs) (zip (map f2 xs) (zip (map f3 xs) (zip (map f4 xs) (map f5 xs))))
     = map (\<lambda>x. (f1 x, f2 x, f3 x, f4 x, f5 x)) xs"
  by (induction xs) simp_all

lemma cells_to_numeric:
  "cells (to_numeric P c) = map (\<lambda>x. number_cell (cell_number P x)) (cells c)"
  by (cases c) (auto simp: number_cell_def split: option.splits)

lemma cell_number_cell: "cell_number P \<circ> case_option NaN Num = id"
  by (auto simp: fun_eq_iff split: option.splits)

lemma to_numeric_values:
  "to_numeric P c = Numeric rs \<Longrightarrow> rs = map (cell_number P) (cells c)"
  by (cases c) (auto simp: cell_number_cell split: option.splits)

lemma normalize_nan: "normalize_availability ''nan'' = ''Out of Stock''"
  by (simp add: normalize_availability_def contains_def lower_def lower_char_def sublist_code)

lemma cells_apply_availability:
  "cells (apply_availability c) =
     map (\<lambda>x. Str (case x of Str s \<Rightarrow> normalize_availability s
                     | _ \<Rightarrow> ''Out of Stock'')) (cells c)"
  by (cases c) (auto simp: normalize_nan split: option.splits)

lemma cells_price:
  "cells (Numeric (map (\<lambda>s. case s of None \<Rightarrow> None | Some x \<Rightarrow> P (filter (\<lambda>c. c \<noteq> pound) x)) ss))
     = map (\<lambda>x. number_cell (case x of Str s \<Rightarrow> P (filter (\<lambda>c. c \<noteq> pound) s) | _ \<Rightarrow> None))
         (cells (Object ss))"
  by (auto simp: number_cell_def split: option.splits)

lemma cells_Numeric: "cells (Numeric xs) = map number_cell xs"
  by (auto simp: number_cell_def)

lemma cells_filter_numeric:
  "cells (Numeric (filter in_range (map (cell_number P) cs)))
     = map (\<lambda>x. number_cell (cell_number P x)) (filter (\<lambda>x. in_range (cell_number P x)) cs)"
  by (induction cs) (auto simp: number_cell_def split: option.splits)

lemma map_snd_zip': "length xs = length ys \<Longrightarrow> map (\<lambda>p. f (snd p)) (zip xs ys) = map f ys"
  by (induction xs ys rule: list_induct2) auto

lemma map_fst_zip': "length xs = length ys \<Longrightarrow> map (\<lambda>p. f (fst p)) (zip xs ys) = map f xs"
  by (induction xs ys rule: list_induct2) auto

lemma unzip5:
  fixes c1 c2 c3 c4 c5 :: "cell list"
  assumes "length c1 = n" "length c2 = n" "length c3 = n" "length c4 = n" "length c5 = n"
  shows "map (\<lambda>(t, p, r, a, u). t) (zip c1 (zip c2 (zip c3 (zip c4 c5)))) = c1"
    and "map (\<lambda>(t, p, r, a, u). p) (zip c1 (zip c2 (zip c3 (zip c4 c5)))) = c2"
    and "map (\<lambda>(t, p, r, a, u). r) (zip c1 (zip c2 (zip c3 (zip c4 c5)))) = c3"
    and "map (\<lambda>(t, p, r, a, u). a) (zip c1 (zip c2 (zip c3 (zip c4 c5)))) = c4"
    and "map (\<lambda>(t, p, r, a, u). u) (zip c1 (zip c2 (zip c3 (zip c4 c5)))) = c5"
proof -
  let ?z4 = "zip c4 c5" and ?z3 = "zip c3 (zip c4 c5)" and ?z2 = "zip c2 (zip c3 (zip c4 c5))"
  have l: "length c4 = length c5" "length c3 = length ?z4" "length c2 = length ?z3"
    "length c1 = length ?z2"
    using assms by simp_all
  have s1: "map (\<lambda>x. f (snd x)) (zip c1 ?z2) = map f ?z2" for f :: "cell \<times> cell \<times> cell \<times> cell \<Rightarrow> cell"
    using l(4) by (rule map_snd_zip')
  have s2: "map (\<lambda>x. f (snd x)) (zip c2 ?z3) = map f ?z3" for f :: "cell \<times> cell \<times> cell \<Rightarrow> cell"
    using l(3) by (rule map_snd_zip')
  have s3: "map (\<lambda>x. f (snd x)) (zip c3 ?z4) = map f ?z4" for f :: "cell \<times> cell \<Rightarrow> cell"
    using l(2) by (rule map_snd_zip')
  show "map (\<lambda>(t, p, r, a, u). t) (zip c1 ?z2) = c1"
    using l(4) by (simp add: case_prod_unfold)
  show "map (\<lambda>(t, p, r, a, u). p) (zip c1 ?z2) = c2"
    using s1[of fst] l(3) by (simp add: case_prod_unfold)
  show "map (\<lambda>(t, p, r, a, u). r) (zip c1 ?z2) = c3"
    using s1[of "\<lambda>x. fst (snd x)"] s2[of fst] l(2) by (simp add: case_prod_unfold)
  show "map (\<lambda>(t, p, r, a, u). a) (zip c1 ?z2) = c4"
    using s1[of "\<lambda>x. fst (snd (snd x))"] s2[of "\<lambda>x. fst (snd x)"] s3[of fst] l(1)
    by (simp add: case_prod_unfold)
  show "map (\<lambda>(t, p, r, a, u). u) (zip c1 ?z2) = c5"
    using s1[of "\<lambda>x. snd (snd (snd x))"] s2[of "\<lambda>x. snd (snd x)"] s3[of snd] l(1)
    by (simp add: case_prod_unfold)
qed

lemma records_member:
  assumes "x \<in> set (records df)"
  obtains t p r a u ct cp cr ca cu where "x = (t, p, r, a, u)"
    "map_of df ''Title'' = Some ct" "t \<in> set (cells ct)"
    "map_of df ''Price'' = Some cp" "p \<in> set (cells cp)"
    "map_of df ''Rating'' = Some cr" "r \<in> set (cells cr)"
    "map_of df ''Availability'' = Some ca" "a \<in> set (cells ca)"
    "map_of df ''URL'' = Some cu" "u \<in> set (cells cu)"
proof -
  obtain t p r a u where x: "x = (t, p, r, a, u)"
    by (cases x) auto
  from assms have "records df \<noteq> []"
    by auto
  then obtain ct cp cr ca cu where c: "map_of df ''Title'' = Some ct"
    "map_of df ''Price'' = Some cp" "map_of df ''Rating'' = Some cr"
    "map_of df ''Availability'' = Some ca" "map_of df ''URL'' = Some cu"
    by (cases "map_of df ''Title''"; cases "map_of df ''Price''"; cases "map_of df ''Rating''";
        cases "map_of df ''Availability''"; cases "map_of df ''URL''")
       (simp_all add: records_def)
  with assms x have "(t, p, r, a, u) \<in> set (zip (cells ct) (zip (cells cp) (zip (cells cr) (zip (cells ca) (cells cu)))))"
    by (simp add: records_def)
  then have "t \<in> set (cells ct)" "p \<in> set (cells cp)" "r \<in> set (cells cr)"
    "a \<in> set (cells ca)" "u \<in> set (cells cu)"
    by (auto dest: set_zip_leftD set_zip_rightD)
  with x c that show thesis by blast
qed

lemma set_apply_availability:
  "x \<in> set (cells (apply_availability c)) \<Longrightarrow> x = Str ''In Stock'' \<or> x = Str ''Out of Stock''"
  by (cases c) (auto simp: normalize_availability_def split: if_splits)

lemma set_cells_Numeric: "x \<in> set (cells (Numeric xs)) \<Longrightarrow> x = NaN \<or> (\<exists>q. x = Num q)"
  by (auto split: option.splits)

subsection \<open>The rows of a successful run\<close>

lemma mask_compose_filter:
  "mask_compose (map p xs) (map q (filter p xs)) = map (\<lambda>x. p x \<and> q x) xs"
  by (induction xs) simp_all

lemma filter_positions:
  "filter p xs = map ((!) xs) (filter (\<lambda>i. p (xs ! i)) [0..<length xs])"
proof -
  have "filter p xs = filter p (map ((!) xs) [0..<length xs])"
    by (simp add: map_nth)
  also have "\<dots> = map ((!) xs) (filter (\<lambda>i. p (xs ! i)) [0..<length xs])"
    by (simp add: filter_map o_def)
  finally show ?thesis .
qed

lemma title_of_clean_record: "title_of (clean_record P x) = title_of x"
  by (cases x) simp

lemma url_of_clean_record: "url_of (clean_record P x) = url_of x"
  by (cases x) simp

text \<open>
  The output by rows, and the one selection of row positions that every column
  other than Price, Rating and Availability goes through.
\<close>

lemma clean_data_rows:
  assumes wf: "wf_frame df" and ok: "clean_data P df = Inr out"
  shows "records out = map (clean_record P) (filter (keep_record P) (records df))"
    and "\<And>name. name \<notin> {''Price'', ''Rating'', ''Availability''} \<Longrightarrow>
           map_of out name =
             map_option (select_col (map (keep_record P) (records df))) (map_of df name)"
    and "map fst out = map fst df"
proof -
  from ok obtain t ps r a u rs m1 where c:
    "map_of df ''Title'' = Some t" "map_of df ''Price'' = Some (Object ps)"
    "map_of df ''Rating'' = Some r" "map_of df ''Availability'' = Some a"
    "map_of df ''URL'' = Some u"
    and m1: "m1 = all_axis1 (nrows df) [notna t, notna (Object ps), notna r, notna a, notna u]"
    and rs: "to_numeric P (select_col m1 r) = Numeric rs"
    and o: "map_of out ''Price'' =
       Some (Numeric (select_rows (map in_range rs)
         (map (\<lambda>s. case s of None \<Rightarrow> None | Some x \<Rightarrow> P (filter (\<lambda>c. c \<noteq> pound) x))
            (select_rows m1 ps))))"
    "map_of out ''Rating'' = Some (Numeric (filter in_range rs))"
    "map_of out ''Availability'' =
       Some (apply_availability (select_col (map in_range rs) (select_col m1 a)))"
    and other: "\<And>name. name \<notin> {''Price'', ''Rating'', ''Availability''} \<Longrightarrow>
       map_of out name = map_option (select_col (mask_compose m1 (map in_range rs))) (map_of df name)"
    and names: "map fst out = map fst df"
    using clean_data_columns[of P df out thesis] by metis
  define R0 where "R0 = records df"
  define n where "n = nrows df"
  define p1 :: "book_row \<Rightarrow> cell" where "p1 = (\<lambda>(t, p, r, a, u). t)"
  define p2 :: "book_row \<Rightarrow> cell" where "p2 = (\<lambda>(t, p, r, a, u). p)"
  define p3 :: "book_row \<Rightarrow> cell" where "p3 = (\<lambda>(t, p, r, a, u). r)"
  define p4 :: "book_row \<Rightarrow> cell" where "p4 = (\<lambda>(t, p, r, a, u). a)"
  define p5 :: "book_row \<Rightarrow> cell" where "p5 = (\<lambda>(t, p, r, a, u). u)"
  have len: "length (cells t) = n" "length (cells (Object ps)) = n" "length (cells r) = n"
    "length (cells a) = n" "length (cells u) = n"
    using wf c by (simp_all only: n_def wf_frame_length)
  have R0: "R0 = zip (cells t) (zip (cells (Object ps)) (zip (cells r) (zip (cells a) (cells u))))"
    using c by (simp add: R0_def records_def)
  have proj: "cells t = map p1 R0" "cells (Object ps) = map p2 R0" "cells r = map p3 R0"
    "cells a = map p4 R0" "cells u = map p5 R0"
    unfolding R0 p1_def p2_def p3_def p4_def p5_def using unzip5[OF len] by simp_all
  define na where "na = (\<lambda>(t::cell, p::cell, r::cell, a::cell, u::cell).
    t \<noteq> NaN \<and> p \<noteq> NaN \<and> r \<noteq> NaN \<and> a \<noteq> NaN \<and> u \<noteq> NaN)"
  have m1': "m1 = map na R0"
    unfolding m1 notna_cells R0 na_def n_def[symmetric] using len by (rule dropna_mask_rows)
  define R1 where "R1 = filter na R0"
  have sel1: "select_rows m1 (map f R0) = map f R1" for f :: "book_row \<Rightarrow> cell"
    by (simp add: m1' select_rows_map select_rows_filter R1_def)
  have rs': "rs = map (\<lambda>x. cell_number P (p3 x)) R1"
    using to_numeric_values[OF rs] by (simp add: cells_select_col proj sel1)
  define R2 where "R2 = filter (\<lambda>x. in_range (cell_number P (p3 x))) R1"
  have sel2: "select_rows (map in_range rs) (map f R1) = map f R2" for f :: "book_row \<Rightarrow> cell"
  proof -
    have "map in_range rs = map (\<lambda>x. in_range (cell_number P (p3 x))) R1"
      by (simp add: rs')
    then show ?thesis
      by (simp add: select_rows_map select_rows_filter R2_def)
  qed
  have R2: "R2 = filter (keep_record P) R0"
    by (auto simp: R2_def R1_def na_def p3_def intro!: filter_cong)
  have title: "\<exists>c. map_of out ''Title'' = Some c \<and> cells c = map p1 R2"
    using other[of "''Title''"] c
    by (simp add: cells_select_col proj sel1 sel2 flip: select_col_compose)
  have url: "\<exists>c. map_of out ''URL'' = Some c \<and> cells c = map p5 R2"
    using other[of "''URL''"] c
    by (simp add: cells_select_col proj sel1 sel2 flip: select_col_compose)
  have price: "\<exists>c. map_of out ''Price'' = Some c \<and>
      cells c = map (\<lambda>x. number_cell (case p2 x of Str s \<Rightarrow> P (filter (\<lambda>c. c \<noteq> pound) s) | _ \<Rightarrow> None)) R2"
  proof -
    have "cells (Numeric (select_rows (map in_range rs)
         (map (\<lambda>s. case s of None \<Rightarrow> None | Some x \<Rightarrow> P (filter (\<lambda>c. c \<noteq> pound) x))
            (select_rows m1 ps))))
      = select_rows (map in_range rs) (cells (Numeric
         (map (\<lambda>s. case s of None \<Rightarrow> None | Some x \<Rightarrow> P (filter (\<lambda>c. c \<noteq> pound) x))
            (select_rows m1 ps))))"
      using cells_select_col[of "map in_range rs" "Numeric xs" for xs] by simp
    also have "\<dots> = select_rows (map in_range rs)
        (map (\<lambda>x. number_cell (case x of Str s \<Rightarrow> P (filter (\<lambda>c. c \<noteq> pound) s) | _ \<Rightarrow> None))
           (select_rows m1 (cells (Object ps))))"
      using cells_select_col[of m1 "Object ps"] by (simp only: cells_price select_col.simps)
    also have "\<dots> = map (\<lambda>x. number_cell (case p2 x of Str s \<Rightarrow> P (filter (\<lambda>c. c \<noteq> pound) s) | _ \<Rightarrow> None)) R2"
      by (simp only: proj sel1 map_map o_def) (simp only: sel2 flip: map_map)
    finally show ?thesis using o(1) by simp
  qed
  have rating: "\<exists>c. map_of out ''Rating'' = Some c \<and>
      cells c = map (\<lambda>x. number_cell (cell_number P (p3 x))) R2"
    using o(2) by (simp add: rs' R2_def filter_map o_def number_cell_def)
  have avail: "\<exists>c. map_of out ''Availability'' = Some c \<and>
      cells c = map (\<lambda>x. Str (case p4 x of Str s \<Rightarrow> normalize_availability s | _ \<Rightarrow> ''Out of Stock'')) R2"
    using o(3) by (simp add: cells_apply_availability cells_select_col proj sel1 sel2 o_def)
  from title url price rating avail have
    "records out = map (\<lambda>x. (p1 x,
        number_cell (case p2 x of Str s \<Rightarrow> P (filter (\<lambda>c. c \<noteq> pound) s) | _ \<Rightarrow> None),
        number_cell (cell_number P (p3 x)),
        Str (case p4 x of Str s \<Rightarrow> normalize_availability s | _ \<Rightarrow> ''Out of Stock''),
        p5 x)) R2"
    unfolding records_def by (auto simp: zip5_maps)
  also have "\<dots> = map (clean_record P) R2"
    by (rule map_cong) (auto simp: p1_def p2_def p3_def p4_def p5_def)
  finally show "records out = map (clean_record P) (filter (keep_record P) (records df))"
    by (simp add: R2 R0_def)
  have mask: "mask_compose m1 (map in_range rs) = map (keep_record P) R0"
  proof -
    have "mask_compose m1 (map in_range rs)
        = mask_compose (map na R0) (map (\<lambda>x. in_range (cell_number P (p3 x))) (filter na R0))"
      by (simp add: m1' rs' R1_def o_def)
    also have "\<dots> = map (\<lambda>x. na x \<and> in_range (cell_number P (p3 x))) R0"
      by (rule mask_compose_filter)
    also have "\<dots> = map (keep_record P) R0"
      by (auto simp: na_def p3_def)
    finally show ?thesis .
  qed
  show "map_of out name = map_option (select_col (map (keep_record P) (records df))) (map_of df name)"
    if "name \<notin> {''Price'', ''Rating'', ''Availability''}" for name
    using other [OF that] mask by (simp add: R0_def)
  show "map fst out = map fst df"
    by (rule names)
qed

section \<open>Claims on the cleaning stage\<close>

subsection \<open>C1: which records the cleaner retains\<close>

text \<open>
  C1 (as amended). For every frame with the five columns on which \<open>_clean_data\<close>
  succeeds, the records of the output are exactly the records of the input, in
  order, that have none of Title, Price, Rating, Availability, URL missing and
  whose Rating, read as a number, lies in [1,5], each with its Price and Rating
  converted and its Availability normalised. Whether the Price is a number is not
  tested: such a record is retained with the Price NaN.
\<close>

theorem clean_data_records:
  assumes wf: "wf_frame df" and ok: "clean_data P df = Inr out"
  shows "records out = map (clean_record P) (filter (keep_record P) (records df))"
  using wf ok by (rule clean_data_rows)

text \<open>
  The theorem at the four-record scenario: the cleaned output holds Book1 and
  Book3, the latter with the Price NaN, as the assertion \<open>len(processed_df) == 2\<close> of
  the repository's test expects.
\<close>

theorem clean_data_records_scenario:
  "wf_frame scenario_frame \<and>
   clean_data parse_decimal scenario_frame = Inr scenario_cleaned \<and>
   records scenario_cleaned =
     map (clean_record parse_decimal) (filter (keep_record parse_decimal) (records scenario_frame)) \<and>
   records scenario_cleaned =
     [(Str ''Book1'', Num 10, Num 4, Str ''In Stock'', Str ''u1''),
      (Str ''Book3'', NaN, Num 3, Str ''In Stock'', Str ''u3'')]"
proof -
  have wf: "wf_frame scenario_frame"
    by code_simp
  have run: "clean_data parse_decimal scenario_frame = Inr scenario_cleaned"
    by code_simp
  have rows: "records scenario_cleaned =
     [(Str ''Book1'', Num 10, Num 4, Str ''In Stock'', Str ''u1''),
      (Str ''Book3'', NaN, Num 3, Str ''In Stock'', Str ''u3'')]"
    by code_simp
  show ?thesis
    by (rule conjI [OF wf conjI [OF run conjI [OF clean_data_records [OF wf run] rows]]])
qed

text \<open>
  C1 as stated fails: on the scenario the output is not the Book1 record alone,
  the record of Book3 stays with an unparsed Price; and a Rating of 4.5, which is no
  integer, is retained.
\<close>

theorem scenario_retains_unparsed_price:
  "clean_data parse_decimal scenario_frame =
     Inr [(''Title'', Object [Some ''Book1'', Some ''Book3'']),
          (''Price'', Numeric [Some 10, None]),
          (''Rating'', Numeric [Some 4, Some 3]),
          (''Availability'', Object [Some ''In Stock'', Some ''In Stock'']),
          (''URL'', Object [Some ''u1'', Some ''u3''])] \<and>
   clean_data parse_decimal fractional_rating_frame =
     Inr [(''Title'', Object [Some ''Book7'']),
          (''Price'', Numeric [Some 12]),
          (''Rating'', Numeric [Some (9 / 2)]),
          (''Availability'', Object [Some ''In Stock'']),
          (''URL'', Object [Some ''u7''])]"
  by code_simp

subsection \<open>C2: the invariant of the cleaned records\<close>

text \<open>
  C2 (as amended). For every record of the cleaned dataset, simultaneously: Rating
  is a number in [1,5], Price is a number or NaN (the column is numeric), and
  Availability is exactly \<open>In Stock\<close> or \<open>Out of Stock\<close>. Neither the sign of the Price
  nor the integrality of the Rating is established by the cleaner.
\<close>

theorem cleaned_records_invariant:
  assumes "clean_data P df = Inr out"
  shows "(\<exists>prices ratings avail.
            getitem out ''Price'' = Inr (Numeric prices) \<and>
            getitem out ''Rating'' = Inr (Numeric ratings) \<and>
            getitem out ''Availability'' = Inr (Object avail)) \<and>
         (\<forall>(t, p, r, a, u) \<in> set (records out).
            (\<exists>q. r = Num q \<and> 1 \<le> q \<and> q \<le> 5) \<and>
            (p = NaN \<or> (\<exists>q. p = Num q)) \<and>
            (a = Str ''In Stock'' \<or> a = Str ''Out of Stock''))"
proof -
  from assms obtain t ps r a u rs m1 where
    o: "map_of out ''Price'' =
       Some (Numeric (select_rows (map in_range rs)
         (map (\<lambda>s. case s of None \<Rightarrow> None | Some x \<Rightarrow> P (filter (\<lambda>c. c \<noteq> pound) x))
            (select_rows m1 ps))))"
    "map_of out ''Rating'' = Some (Numeric (filter in_range rs))"
    "map_of out ''Availability'' =
       Some (apply_availability (select_col (map in_range rs) (select_col m1 a)))"
    using clean_data_columns[of P df out thesis] by metis
  obtain avail where avail: "apply_availability (select_col (map in_range rs) (select_col m1 a)) = Object avail"
    by (cases "select_col (map in_range rs) (select_col m1 a)") simp_all
  have cols: "\<exists>prices ratings avail.
            getitem out ''Price'' = Inr (Numeric prices) \<and>
            getitem out ''Rating'' = Inr (Numeric ratings) \<and>
            getitem out ''Availability'' = Inr (Object avail)"
    using o avail by (simp add: getitem_Inr)
  have rows: "(\<exists>q. r' = Num q \<and> 1 \<le> q \<and> q \<le> 5) \<and> (p' = NaN \<or> (\<exists>q. p' = Num q)) \<and>
            (a' = Str ''In Stock'' \<or> a' = Str ''Out of Stock'')"
    if "(t', p', r', a', u') \<in> set (records out)" for t' p' r' a' u'
  proof -
    from that o have p: "p' \<in> set (cells (Numeric (select_rows (map in_range rs)
         (map (\<lambda>s. case s of None \<Rightarrow> None | Some x \<Rightarrow> P (filter (\<lambda>c. c \<noteq> pound) x))
            (select_rows m1 ps)))))"
      and r: "r' \<in> set (cells (Numeric (filter in_range rs)))"
      and a: "a' \<in> set (cells (apply_availability (select_col (map in_range rs) (select_col m1 a))))"
      by (auto elim!: records_member)
    from p have "p' = NaN \<or> (\<exists>q. p' = Num q)"
      by (rule set_cells_Numeric)
    moreover from r have "\<exists>q. r' = Num q \<and> 1 \<le> q \<and> q \<le> 5"
      by (auto simp: in_range_def split: option.splits)
    moreover from a have "a' = Str ''In Stock'' \<or> a' = Str ''Out of Stock''"
      by (rule set_apply_availability)
    ultimately show ?thesis by blast
  qed
  from cols rows show ?thesis by blast
qed

text \<open>The invariant at the scenario.\<close>

theorem cleaned_records_invariant_scenario:
  "clean_data parse_decimal scenario_frame = Inr scenario_cleaned \<and>
   (\<exists>prices ratings avail.
      getitem scenario_cleaned ''Price'' = Inr (Numeric prices) \<and>
      getitem scenario_cleaned ''Rating'' = Inr (Numeric ratings) \<and>
      getitem scenario_cleaned ''Availability'' = Inr (Object avail)) \<and>
   list_all (\<lambda>(t, p, r, a, u).
      (\<exists>q. r = Num q \<and> 1 \<le> q \<and> q \<le> 5) \<and>
      (p = NaN \<or> (\<exists>q. p = Num q)) \<and>
      (a = Str ''In Stock'' \<or> a = Str ''Out of Stock'')) (records scenario_cleaned)"
proof -
  have run: "clean_data parse_decimal scenario_frame = Inr scenario_cleaned"
    by code_simp
  show ?thesis
    unfolding list_all_iff by (rule conjI [OF run cleaned_records_invariant [OF run]])
qed

text \<open>
  C2 as stated fails: a cleaned record with the Price -5 and the Rating 4.5, and
  one with the Price NaN.
\<close>

theorem cleaned_price_negative_rating_fractional:
  "clean_data parse_decimal half_star_frame = Inr half_star_cleaned \<and>
   records half_star_cleaned =
     [(Str ''Book5'', Num (- 5), Num (9 / 2), Str ''In Stock'', Str ''u5''),
      (Str ''Book6'', NaN, Num 3, Str ''Out of Stock'', Str ''u6'')] \<and>
   \<not> (0::rat) \<le> - 5 \<and> (9 / 2 :: rat) \<notin> \<int>"
proof -
  have "clean_data parse_decimal half_star_frame = Inr half_star_cleaned"
    by code_simp
  moreover have "records half_star_cleaned =
     [(Str ''Book5'', Num (- 5), Num (9 / 2), Str ''In Stock'', Str ''u5''),
      (Str ''Book6'', NaN, Num 3, Str ''Out of Stock'', Str ''u6'')]"
    by code_simp
  moreover have "(9 / 2 :: rat) \<notin> \<int>"
  proof
    assume "(9 / 2 :: rat) \<in> \<int>"
    then obtain k :: int where "(9 / 2 :: rat) = of_int k"
      by (auto elim: Ints_cases)
    then have "(9 :: rat) = of_int (2 * k)"
      by simp
    then have "(9 :: int) = 2 * k"
      by (metis of_int_eq_iff of_int_numeral)
    then show False
      by presburger
  qed
  ultimately show ?thesis by simp
qed

subsection \<open>C10: order, Title and URL\<close>

text \<open>
  C10. For every frame with the five columns on which \<open>_clean_data\<close> succeeds, the
  records of the output are, one for one and in this order, the records of the
  input at the positions \<open>survivors P df\<close>: the positions, ascending, of the records
  that pass the filter. The output record at place \<open>j\<close> is the input record at
  position \<open>survivors P df ! j\<close> with its Price, Rating and Availability transformed,
  and it has the Title and the URL of that input record unchanged. The positions
  are strictly ascending, so no record is duplicated or moved, and they are all
  the positions that pass the filter. The Title and URL columns, as every column
  other than Price, Rating and Availability, are the input columns restricted to
  the rows that pass the filter, and the columns keep their names and order.
\<close>

theorem clean_data_keeps_order:
  assumes "wf_frame df" and "clean_data P df = Inr out"
  shows "length (records out) = length (survivors P df) \<and>
         (\<forall>j<length (survivors P df).
            records out ! j = clean_record P (records df ! (survivors P df ! j)) \<and>
            title_of (records out ! j) = title_of (records df ! (survivors P df ! j)) \<and>
            url_of (records out ! j) = url_of (records df ! (survivors P df ! j))) \<and>
         sorted_wrt (<) (survivors P df) \<and>
         set (survivors P df) = {i. i < length (records df) \<and> keep_record P (records df ! i)} \<and>
         (\<forall>name. name \<notin> {''Price'', ''Rating'', ''Availability''} \<longrightarrow>
            map_of out name =
              map_option (select_col (map (keep_record P) (records df))) (map_of df name)) \<and>
         map fst out = map fst df"
proof -
  have "records out = map (clean_record P) (filter (keep_record P) (records df))"
    using assms by (rule clean_data_rows)
  also have "filter (keep_record P) (records df) = map ((!) (records df)) (survivors P df)"
    unfolding survivors_def by (rule filter_positions)
  finally have rows: "records out = map (\<lambda>i. clean_record P (records df ! i)) (survivors P df)"
    by (simp add: o_def)
  have len: "length (records out) = length (survivors P df)"
    by (simp add: rows)
  have each: "records out ! j = clean_record P (records df ! (survivors P df ! j)) \<and>
      title_of (records out ! j) = title_of (records df ! (survivors P df ! j)) \<and>
      url_of (records out ! j) = url_of (records df ! (survivors P df ! j))"
    if "j < length (survivors P df)" for j
    using that by (simp add: rows title_of_clean_record url_of_clean_record)
  have ascending: "sorted_wrt (<) (survivors P df)"
    unfolding survivors_def by (rule sorted_wrt_filter) simp
  have all: "set (survivors P df) = {i. i < length (records df) \<and> keep_record P (records df ! i)}"
    by (auto simp: survivors_def)
  have other: "\<forall>name. name \<notin> {''Price'', ''Rating'', ''Availability''} \<longrightarrow>
      map_of out name = map_option (select_col (map (keep_record P) (records df))) (map_of df name)"
    using clean_data_rows(2) [OF assms] by blast
  have names: "map fst out = map fst df"
    using assms by (rule clean_data_rows)
  from len each ascending all other names show ?thesis
    by blast
qed

text \<open>
  The theorem at the scenario. The second record of the input is dropped (Rating
  6) and so is the fourth (no Title): the output record at place 1 is the input
  record at position 2, with the Title \<open>Book3\<close> and the URL \<open>u3\<close> of that record.
\<close>

theorem clean_data_keeps_order_scenario:
  "wf_frame scenario_frame \<and>
   clean_data parse_decimal scenario_frame = Inr scenario_cleaned \<and>
   survivors parse_decimal scenario_frame = [0, 2] \<and>
   length (records scenario_cleaned) = 2 \<and>
   records scenario_cleaned ! 1 = clean_record parse_decimal (records scenario_frame ! 2) \<and>
   title_of (records scenario_cleaned ! 1) = title_of (records scenario_frame ! 2) \<and>
   url_of (records scenario_cleaned ! 1) = url_of (records scenario_frame ! 2) \<and>
   records scenario_frame ! 2 = (Str ''Book3'', Str ''invalid'', Num 3, Str ''in stock'', Str ''u3'') \<and>
   records scenario_cleaned ! 1 = (Str ''Book3'', NaN, Num 3, Str ''In Stock'', Str ''u3'')"
proof -
  have wf: "wf_frame scenario_frame"
    by code_simp
  have run: "clean_data parse_decimal scenario_frame = Inr scenario_cleaned"
    by code_simp
  have s: "survivors parse_decimal scenario_frame = [0, 2]"
    by code_simp
  have row_in: "records scenario_frame ! 2
      = (Str ''Book3'', Str ''invalid'', Num 3, Str ''in stock'', Str ''u3'')"
    by code_simp
  have row_out: "records scenario_cleaned ! 1
      = (Str ''Book3'', NaN, Num 3, Str ''In Stock'', Str ''u3'')"
    by code_simp
  note t = clean_data_keeps_order [OF wf run]
  from t have "length (records scenario_cleaned) = length (survivors parse_decimal scenario_frame)"
    by (rule conjunct1)
  then have len: "length (records scenario_cleaned) = 2"
    by (simp only: s list.size)
  have j1: "1 < length (survivors parse_decimal scenario_frame)"
    and s1: "survivors parse_decimal scenario_frame ! 1 = 2"
    by (simp_all add: s)
  from t have "\<forall>j<length (survivors parse_decimal scenario_frame).
      records scenario_cleaned ! j
        = clean_record parse_decimal
            (records scenario_frame ! (survivors parse_decimal scenario_frame ! j)) \<and>
      title_of (records scenario_cleaned ! j)
        = title_of (records scenario_frame ! (survivors parse_decimal scenario_frame ! j)) \<and>
      url_of (records scenario_cleaned ! j)
        = url_of (records scenario_frame ! (survivors parse_decimal scenario_frame ! j))"
    by (rule conjunct1 [OF conjunct2])
  with j1 have "records scenario_cleaned ! 1
        = clean_record parse_decimal
            (records scenario_frame ! (survivors parse_decimal scenario_frame ! 1)) \<and>
      title_of (records scenario_cleaned ! 1)
        = title_of (records scenario_frame ! (survivors parse_decimal scenario_frame ! 1)) \<and>
      url_of (records scenario_cleaned ! 1)
        = url_of (records scenario_frame ! (survivors parse_decimal scenario_frame ! 1))"
    by blast
  then have at1: "records scenario_cleaned ! 1 = clean_record parse_decimal (records scenario_frame ! 2) \<and>
      title_of (records scenario_cleaned ! 1) = title_of (records scenario_frame ! 2) \<and>
      url_of (records scenario_cleaned ! 1) = url_of (records scenario_frame ! 2)"
    unfolding s1 .
  show ?thesis
    by (rule conjI [OF wf conjI [OF run conjI [OF s conjI [OF len
          conjI [OF conjunct1 [OF at1] conjI [OF conjunct1 [OF conjunct2 [OF at1]]
          conjI [OF conjunct2 [OF conjunct2 [OF at1]] conjI [OF row_in row_out]]]]]]]])
qed

section \<open>Claims on the processing trigger\<close>

subsection \<open>C3: an unreadable or malformed source\<close>

text \<open>
  C3 does not hold of the code. Whenever the configuration names the file and
  \<open>pd.read_csv\<close> or \<open>_clean_data\<close> raises, \<open>process_data\<close> catches the exception and
  returns \<open>None\<close>, and \<open>lambdaHandler\<close> reports status 200 with the message
  \<open>Processing completed successfully\<close> and a null \<open>parquet_path\<close>: the handler of
  scrapper.py tests the returned path (\<open>200 if csv_path else 500\<close>), this one does not.
\<close>

theorem lambdaHandler_processing_success_on_failure:
  assumes "run_raw_data w = Some raw_data_files"
    and "find (\<lambda>f. Some (fst f) = file_id) raw_data_files = Some file_config"
    and "makedirs_ok w"
    and "bind (read_csv w (snd file_config)) (clean_data (numeric_parser w)) = Inl e"
  shows "lambdaHandler_processing w file_id =
           (\<lparr>statusCode = 200, message = ''Processing completed successfully'',
             body_path = None, body_error = None\<rparr>, w)"
  using assms by (simp add: lambdaHandler_processing_def process_data_def)

text \<open>The theorem at a missing file and at a file without the Title column.\<close>

theorem lambdaHandler_processing_missing_file:
  "fst (lambdaHandler_processing missing_file_world (Some ''102'')) =
     \<lparr>statusCode = 200, message = ''Processing completed successfully'',
      body_path = None, body_error = None\<rparr> \<and>
   fst (lambdaHandler_processing no_title_world (Some ''102'')) =
     \<lparr>statusCode = 200, message = ''Processing completed successfully'',
      body_path = None, body_error = None\<rparr>"
proof -
  have a: "run_raw_data missing_file_world = Some [(''102'', ''raw_data/books_data.csv'')]"
    and b: "find (\<lambda>f. Some (fst f) = Some ''102'') [(''102'', ''raw_data/books_data.csv'')]
              = Some (''102'', ''raw_data/books_data.csv'')"
    and c: "makedirs_ok missing_file_world"
    and d: "bind (read_csv missing_file_world (snd (''102'', ''raw_data/books_data.csv'')))
              (clean_data (numeric_parser missing_file_world)) = Inl OSError"
    by (simp_all add: missing_file_world_def bind_def)
  have a': "run_raw_data no_title_world = Some [(''102'', ''raw_data/books_data.csv'')]"
    and c': "makedirs_ok no_title_world"
    and d': "bind (read_csv no_title_world (snd (''102'', ''raw_data/books_data.csv'')))
              (clean_data (numeric_parser no_title_world)) = Inl KeyError"
    by (simp_all add: no_title_world_def bind_def clean_data_def dropna_def)
  show ?thesis
    using lambdaHandler_processing_success_on_failure [OF a b c d]
      lambdaHandler_processing_success_on_failure [OF a' b c' d']
    by simp
qed

section \<open>Claims on the extraction of one entry\<close>

subsection \<open>The requests of the retry loop\<close>

lemma detail_loop_requests:
  "\<exists>k. k \<le> nat (MAX_RETRIES (config w) - retries) \<and>
       snd (detail_loop w url retries s reqs) = reqs @ replicate k (DetailGet url)"
proof (induction w url retries s reqs rule: detail_loop.induct)
  case (1 w url retries subcategory reqs)
  show ?case
  proof (cases "retries < MAX_RETRIES (config w)")
    case False
    then show ?thesis
      by (subst detail_loop.simps) simp
  next
    case lt: True
    show ?thesis
    proof (cases "http w (length reqs) url")
      case Failed
      show ?thesis
      proof (cases "MAX_RETRIES (config w) \<le> retries + 1")
        case True
        with lt Failed have "snd (detail_loop w url retries subcategory reqs)
            = reqs @ replicate 1 (DetailGet url)"
          by (subst detail_loop.simps) simp
        moreover have "1 \<le> nat (MAX_RETRIES (config w) - retries)"
          using lt by simp
        ultimately show ?thesis by blast
      next
        case False
        from "1.IH"(1) [OF lt Failed False] obtain k where
          k: "k \<le> nat (MAX_RETRIES (config w) - (retries + 1))"
          "snd (detail_loop w url (retries + 1) subcategory (reqs @ [DetailGet url]))
             = (reqs @ [DetailGet url]) @ replicate k (DetailGet url)"
          by blast
        from lt Failed False k(2) have "snd (detail_loop w url retries subcategory reqs)
            = reqs @ replicate (Suc k) (DetailGet url)"
          by (subst detail_loop.simps) simp
        moreover have "Suc k \<le> nat (MAX_RETRIES (config w) - retries)"
          using k(1) lt by simp
        ultimately show ?thesis by blast
      qed
    next
      case (Page d)
      show ?thesis
      proof (cases "resolve_strategies d subcategory \<noteq> ''Unknown''")
        case True
        with lt Page have "snd (detail_loop w url retries subcategory reqs)
            = reqs @ replicate 1 (DetailGet url)"
          by (subst detail_loop.simps) simp
        moreover have "1 \<le> nat (MAX_RETRIES (config w) - retries)"
          using lt by simp
        ultimately show ?thesis by blast
      next
        case False
        from "1.IH"(2) [OF lt Page refl False] obtain k where
          k: "k \<le> nat (MAX_RETRIES (config w) - (retries + 1))"
          "snd (detail_loop w url (retries + 1) (resolve_strategies d subcategory)
                 (reqs @ [DetailGet url]))
             = (reqs @ [DetailGet url]) @ replicate k (DetailGet url)"
          by blast
        from lt Page False k(2) have "snd (detail_loop w url retries subcategory reqs)
            = reqs @ replicate (Suc k) (DetailGet url)"
          by (subst detail_loop.simps) (simp add: Let_def)
        moreover have "Suc k \<le> nat (MAX_RETRIES (config w) - retries)"
          using k(1) lt by simp
        ultimately show ?thesis by blast
      qed
    qed
  qed
qed

lemma detail_loop_all_failed:
  assumes "\<forall>j. http w j url = Failed"
  shows "detail_loop w url retries s reqs
           = (s, reqs @ replicate (nat (MAX_RETRIES (config w) - retries)) (DetailGet url))"
  using assms
proof (induction w url retries s reqs rule: detail_loop.induct)
  case (1 w url retries subcategory reqs)
  have failed: "http w (length reqs) url = Failed"
    using "1.prems" by simp
  show ?case
  proof (cases "retries < MAX_RETRIES (config w)")
    case False
    then show ?thesis
      by (subst detail_loop.simps) simp
  next
    case lt: True
    show ?thesis
    proof (cases "MAX_RETRIES (config w) \<le> retries + 1")
      case True
      with lt have "nat (MAX_RETRIES (config w) - retries) = 1"
        by simp
      with lt failed True show ?thesis
        by (subst detail_loop.simps) simp
    next
      case False
      then have "nat (MAX_RETRIES (config w) - retries)
          = Suc (nat (MAX_RETRIES (config w) - (retries + 1)))"
        by simp
      with "1.IH"(1) [OF lt failed False "1.prems"] lt failed False show ?thesis
        by (subst detail_loop.simps) simp
    qed
  qed
qed

lemma extract_book_details_requests:
  "\<exists>k u. k \<le> nat (MAX_RETRIES (config w)) \<and>
       snd (extract_book_details w base_url book reqs) = reqs @ replicate k (DetailGet u)"
proof (cases "\<exists>title ptext classes atext href.
    title_attr book = Some title \<and> price_text book = Some ptext \<and>
    rating_classes book = Some classes \<and> availability_text book = Some atext \<and>
    href_attr book = Some href \<and> \<not> length classes < 2")
  case True
  then obtain title ptext classes atext href where b:
    "title_attr book = Some title" "price_text book = Some ptext"
    "rating_classes book = Some classes" "availability_text book = Some atext"
    "href_attr book = Some href" "\<not> length classes < 2"
    by blast
  let ?u = "product_url (urljoin w) base_url href"
  from detail_loop_requests [of w 0 ?u "''Unknown''" reqs] obtain k where
    k: "k \<le> nat (MAX_RETRIES (config w))"
    "snd (detail_loop w ?u 0 ''Unknown'' reqs) = reqs @ replicate k (DetailGet ?u)"
    by auto
  from b k(2) have "snd (extract_book_details w base_url book reqs) = reqs @ replicate k (DetailGet ?u)"
    by (cases "detail_loop w ?u 0 ''Unknown'' reqs") (simp add: extract_book_details_def Let_def)
  with k(1) show ?thesis by blast
next
  case False
  then have "snd (extract_book_details w base_url book reqs) = reqs @ replicate 0 (DetailGet [])"
    by (auto simp: extract_book_details_def split: option.splits)
  then show ?thesis by blast
qed

subsection \<open>C5: at most \<open>MAX_RETRIES\<close> detail fetches\<close>

text \<open>
  C5. The retry loop is a total function (its termination is proved with the
  measure \<open>MAX_RETRIES - retries\<close>). Started at \<open>retries = 0\<close> it makes \<open>k\<close> requests of
  the detail page and no other request, with \<open>k\<close> at most \<open>MAX_RETRIES\<close>; when every
  attempt fails with a transport error each failure counts as one attempt: exactly
  \<open>MAX_RETRIES\<close> requests are made and the label stays \<open>Unknown\<close>. The same bound holds
  for the whole extraction of one entry. \<open>MAX_RETRIES\<close> is 3 as shipped.
\<close>

theorem detail_fetches_bounded:
  "(\<exists>k. k \<le> nat (MAX_RETRIES (config w)) \<and>
        snd (detail_loop w url 0 ''Unknown'' reqs) = reqs @ replicate k (DetailGet url) \<and>
        ((\<forall>j. http w j url = Failed) \<longrightarrow>
           k = nat (MAX_RETRIES (config w)) \<and>
           fst (detail_loop w url 0 ''Unknown'' reqs) = ''Unknown'')) \<and>
   (\<exists>k u. k \<le> nat (MAX_RETRIES (config w)) \<and>
        snd (extract_book_details w base_url book reqs) = reqs @ replicate k (DetailGet u)) \<and>
   MAX_RETRIES shipped_config = 3"
proof -
  have "\<exists>k. k \<le> nat (MAX_RETRIES (config w)) \<and>
        snd (detail_loop w url 0 ''Unknown'' reqs) = reqs @ replicate k (DetailGet url) \<and>
        ((\<forall>j. http w j url = Failed) \<longrightarrow>
           k = nat (MAX_RETRIES (config w)) \<and>
           fst (detail_loop w url 0 ''Unknown'' reqs) = ''Unknown'')"
  proof (cases "\<forall>j. http w j url = Failed")
    case True
    from detail_loop_all_failed [OF True, of 0 "''Unknown''" reqs] show ?thesis
      by (intro exI [of _ "nat (MAX_RETRIES (config w))"]) simp
  next
    case False
    with detail_loop_requests [of w 0 url "''Unknown''" reqs] show ?thesis
      by auto
  qed
  moreover have "MAX_RETRIES shipped_config = 3"
    by (simp add: shipped_config_def)
  ultimately show ?thesis
    using extract_book_details_requests [of w base_url book reqs] by blast
qed

text \<open>The theorem on the network on which every request fails: three requests.\<close>

theorem detail_fetches_offline:
  "detail_loop offline_world ''http://books.toscrape.com/catalogue/a_1/index.html'' 0 ''Unknown'' []
     = (''Unknown'',
        [DetailGet ''http://books.toscrape.com/catalogue/a_1/index.html'',
         DetailGet ''http://books.toscrape.com/catalogue/a_1/index.html'',
         DetailGet ''http://books.toscrape.com/catalogue/a_1/index.html''])"
proof -
  let ?u = "''http://books.toscrape.com/catalogue/a_1/index.html''"
  have failed: "\<forall>j. http offline_world j ?u = Failed"
    by (simp add: offline_world_def)
  have three: "nat (MAX_RETRIES (config offline_world)) = 3"
    by (simp add: offline_world_def shipped_config_def)
  from detail_fetches_bounded [of offline_world ?u "[]"] failed obtain k where
    "snd (detail_loop offline_world ?u 0 ''Unknown'' []) = [] @ replicate k (DetailGet ?u)"
    "k = nat (MAX_RETRIES (config offline_world))"
    "fst (detail_loop offline_world ?u 0 ''Unknown'' []) = ''Unknown''"
    by blast
  with three show ?thesis
    by (simp add: prod_eq_iff numeral_3_eq_3)
qed

subsection \<open>C4: the Price of a raw record\<close>

text \<open>
  C4 (as amended). For every listing entry successfully extracted, the Price field
  of the raw record is the price text without its first character (line 29,
  \<open>.text[1:]\<close>), whatever that character is.
\<close>

theorem extracted_price_drops_first_character:
  assumes "extract_book_details w base_url book reqs = (Some r, reqs')"
  shows "\<exists>ptext. price_text book = Some ptext \<and> Price r = drop 1 ptext"
  using assms
  by (auto simp: extract_book_details_def Let_def split: option.splits if_splits prod.splits)

text \<open>
  The theorem at an entry whose price text has a stray character before the pound
  sign: there the sign stays in the Price.
\<close>

theorem extracted_price_mojibake:
  "extract_book_details offline_world ''http://books.toscrape.com/'' mojibake_book []
     = (Some \<lparr>Title = ''A Light in the Attic'', Price = pound # ''51.77'', Rating = 3,
              Availability = ''In stock'',
              URL = ''http://books.toscrape.com/catalogue/a-light-in-the-attic_1000/index.html'',
              Subcategory = ''Unknown''\<rparr>,
        [DetailGet ''http://books.toscrape.com/catalogue/a-light-in-the-attic_1000/index.html'',
         DetailGet ''http://books.toscrape.com/catalogue/a-light-in-the-attic_1000/index.html'',
         DetailGet ''http://books.toscrape.com/catalogue/a-light-in-the-attic_1000/index.html'']) \<and>
   (\<exists>ptext. price_text mojibake_book = Some ptext \<and> pound # ''51.77'' = drop 1 ptext)"
proof -
  have run: "extract_book_details offline_world ''http://books.toscrape.com/'' mojibake_book []
     = (Some \<lparr>Title = ''A Light in the Attic'', Price = pound # ''51.77'', Rating = 3,
              Availability = ''In stock'',
              URL = ''http://books.toscrape.com/catalogue/a-light-in-the-attic_1000/index.html'',
              Subcategory = ''Unknown''\<rparr>,
        [DetailGet ''http://books.toscrape.com/catalogue/a-light-in-the-attic_1000/index.html'',
         DetailGet ''http://books.toscrape.com/catalogue/a-light-in-the-attic_1000/index.html'',
         DetailGet ''http://books.toscrape.com/catalogue/a-light-in-the-attic_1000/index.html''])"
    by code_simp
  from extracted_price_drops_first_character [OF run] have
    "\<exists>ptext. price_text mojibake_book = Some ptext \<and> pound # ''51.77'' = drop 1 ptext"
    by simp
  with run show ?thesis by (rule conjI)
qed

text \<open>
  C4 as stated fails: when the price text begins with the pound sign, the Price of
  the record is the text without the sign.
\<close>

theorem extracted_price_loses_pound_sign:
  "price_text pound_book = Some (pound # ''51.77'') \<and>
   map_option Price (fst (extract_book_details offline_world ''http://books.toscrape.com/'' pound_book []))
     = Some ''51.77'' \<and>
   pound \<notin> set ''51.77''"
  by code_simp

subsection \<open>C8: the URL of the detail page\<close>

text \<open>
  C8. The rule of the claim (an absolute href as it is, any other resolved against
  the base URL) is what lines 42 to 55 set out to do: the comment of line 42 reads
  ``Determine if we're dealing with full or relative paths''. The test of line 43
  is the prefix \<open>http\<close> alone. For every base URL and every \<open>urljoin\<close>: an href that
  begins with \<open>http\<close> is returned as it is, absolute or not; every other href has one
  leading \<open>../\<close> removed and is joined to the base URL, after \<open>catalogue/\<close> when the base
  URL does not end with \<open>/catalogue/\<close>. So the relative href \<open>httpd_2/index.html\<close> under
  the base \<open>http://example.com/catalogue/\<close> stays unresolved, where the rule of the
  claim gives \<open>http://example.com/catalogue/httpd_2/index.html\<close>. The example of
  the claim holds: the base \<open>http://example.com/catalogue/\<close> with the href
  \<open>../book_1/index.html\<close> gives \<open>http://example.com/catalogue/book_1/index.html\<close>.
\<close>

theorem product_url_tests_prefix_only:
  "(startswith href ''http'' \<longrightarrow> product_url join base_url href = href) \<and>
   (\<not> startswith href ''http'' \<longrightarrow>
      product_url join base_url href =
        join base_url
          ((if endswith base_url ''/catalogue/'' then [] else ''catalogue/'') @
           (if startswith href ''../'' then drop 3 href else href))) \<and>
   product_url py_urljoin ''http://example.com/catalogue/'' ''httpd_2/index.html''
     = ''httpd_2/index.html'' \<and>
   py_urljoin ''http://example.com/catalogue/'' ''httpd_2/index.html''
     = ''http://example.com/catalogue/httpd_2/index.html'' \<and>
   product_url py_urljoin ''http://example.com/catalogue/'' ''../book_1/index.html''
     = ''http://example.com/catalogue/book_1/index.html''"
proof -
  have kept: "startswith href ''http'' \<longrightarrow> product_url join base_url href = href"
    by (simp add: product_url_def)
  have joined: "\<not> startswith href ''http'' \<longrightarrow>
      product_url join base_url href =
        join base_url
          ((if endswith base_url ''/catalogue/'' then [] else ''catalogue/'') @
           (if startswith href ''../'' then drop 3 href else href))"
    by (simp add: product_url_def Let_def)
  have unresolved: "product_url py_urljoin ''http://example.com/catalogue/'' ''httpd_2/index.html''
     = ''httpd_2/index.html''"
    by code_simp
  have resolved: "py_urljoin ''http://example.com/catalogue/'' ''httpd_2/index.html''
     = ''http://example.com/catalogue/httpd_2/index.html''"
    by code_simp
  have example: "product_url py_urljoin ''http://example.com/catalogue/'' ''../book_1/index.html''
     = ''http://example.com/catalogue/book_1/index.html''"
    by code_simp
  from kept joined unresolved resolved example show ?thesis
    by (intro conjI)
qed

text \<open>
  The theorem at a relative href that begins with \<open>http\<close>, which is not resolved
  under either kind of base URL, at an absolute href of another scheme, which is
  joined to the base URL behind \<open>catalogue/\<close> and not used as it is, and at an
  absolute and a relative href on which the rule of the claim is met.
\<close>

theorem product_url_relative_href_unresolved:
  "product_url py_urljoin ''http://books.toscrape.com/'' ''http-basics_7/index.html''
     = ''http-basics_7/index.html'' \<and>
   py_urljoin ''http://books.toscrape.com/'' ''catalogue/http-basics_7/index.html''
     = ''http://books.toscrape.com/catalogue/http-basics_7/index.html'' \<and>
   product_url py_urljoin ''http://books.toscrape.com/'' ''ftp://example.com/book_1/index.html''
     = ''http://books.toscrape.com/catalogue/ftp:/example.com/book_1/index.html'' \<and>
   product_url py_urljoin ''http://books.toscrape.com/'' ''http://example.com/x.html''
     = ''http://example.com/x.html'' \<and>
   product_url py_urljoin ''http://books.toscrape.com/'' ''../a_1/index.html''
     = ''http://books.toscrape.com/catalogue/a_1/index.html''"
proof -
  have h1: "startswith ''http-basics_7/index.html'' ''http''"
    and h2: "\<not> startswith ''ftp://example.com/book_1/index.html'' ''http''"
    and h3: "startswith ''http://example.com/x.html'' ''http''"
    and h4: "\<not> startswith ''../a_1/index.html'' ''http''"
    by code_simp+
  have e0: "py_urljoin ''http://books.toscrape.com/'' ''catalogue/http-basics_7/index.html''
     = ''http://books.toscrape.com/catalogue/http-basics_7/index.html''"
    by code_simp
  have e2: "py_urljoin ''http://books.toscrape.com/''
          ((if endswith ''http://books.toscrape.com/'' ''/catalogue/'' then [] else ''catalogue/'') @
           (if startswith ''ftp://example.com/book_1/index.html'' ''../''
            then drop 3 ''ftp://example.com/book_1/index.html''
            else ''ftp://example.com/book_1/index.html''))
        = ''http://books.toscrape.com/catalogue/ftp:/example.com/book_1/index.html''"
    by code_simp
  have e4: "py_urljoin ''http://books.toscrape.com/''
          ((if endswith ''http://books.toscrape.com/'' ''/catalogue/'' then [] else ''catalogue/'') @
           (if startswith ''../a_1/index.html'' ''../'' then drop 3 ''../a_1/index.html''
            else ''../a_1/index.html''))
        = ''http://books.toscrape.com/catalogue/a_1/index.html''"
    by code_simp
  from product_url_tests_prefix_only [of "''http-basics_7/index.html''" py_urljoin
      "''http://books.toscrape.com/''"] h1
  have a: "product_url py_urljoin ''http://books.toscrape.com/'' ''http-basics_7/index.html''
     = ''http-basics_7/index.html''"
    by blast
  from product_url_tests_prefix_only [of "''ftp://example.com/book_1/index.html''" py_urljoin
      "''http://books.toscrape.com/''"] h2
  have "product_url py_urljoin ''http://books.toscrape.com/'' ''ftp://example.com/book_1/index.html''
     = py_urljoin ''http://books.toscrape.com/''
          ((if endswith ''http://books.toscrape.com/'' ''/catalogue/'' then [] else ''catalogue/'') @
           (if startswith ''ftp://example.com/book_1/index.html'' ''../''
            then drop 3 ''ftp://example.com/book_1/index.html''
            else ''ftp://example.com/book_1/index.html''))"
    by blast
  from this e2 have b: "product_url py_urljoin ''http://books.toscrape.com/''
       ''ftp://example.com/book_1/index.html''
     = ''http://books.toscrape.com/catalogue/ftp:/example.com/book_1/index.html''"
    by (rule trans)
  from product_url_tests_prefix_only [of "''http://example.com/x.html''" py_urljoin
      "''http://books.toscrape.com/''"] h3
  have c: "product_url py_urljoin ''http://books.toscrape.com/'' ''http://example.com/x.html''
     = ''http://example.com/x.html''"
    by blast
  from product_url_tests_prefix_only [of "''../a_1/index.html''" py_urljoin
      "''http://books.toscrape.com/''"] h4
  have "product_url py_urljoin ''http://books.toscrape.com/'' ''../a_1/index.html''
     = py_urljoin ''http://books.toscrape.com/''
          ((if endswith ''http://books.toscrape.com/'' ''/catalogue/'' then [] else ''catalogue/'') @
           (if startswith ''../a_1/index.html'' ''../'' then drop 3 ''../a_1/index.html''
            else ''../a_1/index.html''))"
    by blast
  from this e4 have d: "product_url py_urljoin ''http://books.toscrape.com/'' ''../a_1/index.html''
     = ''http://books.toscrape.com/catalogue/a_1/index.html''"
    by (rule trans)
  from a e0 b c d show ?thesis
    by (intro conjI)
qed

section \<open>Claims on the crawl\<close>

subsection \<open>C9: the undefined \<open>MAX_PAGES\<close>\<close>

lemma crawl_loop_no_ceiling:
  "MAX_PAGES (config w) = None \<Longrightarrow> u \<noteq> [] \<Longrightarrow>
     crawl_loop w base_url (Some u) page_count books_data reqs = (Inl AttributeError, reqs)"
  by (subst crawl_loop.simps) simp

text \<open>
  C9 (as amended). With the configuration as shipped, for every base URL that is
  not the empty string, \<open>scrape_books\<close> fails at the first evaluation of the loop
  condition: no request is made, nothing is written, the result is \<open>None\<close>, and
  the crawl trigger reports status 500 for the scraper entry with that URL. For
  the empty base URL the loop is skipped before \<open>MAX_PAGES\<close> is looked up: the run
  makes no request and hands the empty list of records to the writing of the CSV
  file, whose path it returns when the file can be written.
\<close>

theorem scrape_books_fails_as_shipped:
  assumes "config w = shipped_config" and "base_url \<noteq> []"
  shows "scrape_books w base_url = \<lparr>csv_path = None, requests_made = [], csv_file = None\<rparr> \<and>
         (run_scrapper w = Some scrapers \<and>
          find (\<lambda>s. Some (fst s) = scraper_id) scrapers = Some (sid, base_url) \<longrightarrow>
            lambdaHandler_scrapping w scraper_id =
              (if can_makedirs w
               then \<lparr>statusCode = 500, message = ''Scraping failed'', body_path = None,
                     body_error = None\<rparr>
               else scraping_failed OSError) \<and>
            statusCode (lambdaHandler_scrapping w scraper_id) = 500) \<and>
         scrape_books w [] = save_csv w [] []"
proof -
  from assms(1) have none: "MAX_PAGES (config w) = None"
    by (simp add: shipped_config_def)
  have s: "scrape_books w base_url = \<lparr>csv_path = None, requests_made = [], csv_file = None\<rparr>"
    by (simp add: scrape_books_def crawl_loop_no_ceiling [OF none assms(2)])
  then have trigger: "run_scrapper w = Some scrapers \<and>
          find (\<lambda>s. Some (fst s) = scraper_id) scrapers = Some (sid, base_url) \<longrightarrow>
            lambdaHandler_scrapping w scraper_id =
              (if can_makedirs w
               then \<lparr>statusCode = 500, message = ''Scraping failed'', body_path = None,
                     body_error = None\<rparr>
               else scraping_failed OSError) \<and>
            statusCode (lambdaHandler_scrapping w scraper_id) = 500"
    by (auto simp: lambdaHandler_scrapping_def truthy_def scraping_failed_def Let_def)
  have skipped: "scrape_books w [] = save_csv w [] []"
    by (simp add: scrape_books_def crawl_loop.simps [of w "[]" "Some []"])
  from s trigger skipped show ?thesis
    by (intro conjI)
qed

text \<open>The theorem at the base URL of the shipped configuration.\<close>

theorem scrape_books_fails_offline:
  "scrape_books offline_world ''http://books.toscrape.com/''
     = \<lparr>csv_path = None, requests_made = [], csv_file = None\<rparr> \<and>
   statusCode (lambdaHandler_scrapping offline_world (Some ''102'')) = 500"
proof -
  have c: "config offline_world = shipped_config"
    by (simp add: offline_world_def)
  have n: "''http://books.toscrape.com/'' \<noteq> []"
    by simp
  have r: "run_scrapper offline_world = Some [(''102'', ''http://books.toscrape.com/'')] \<and>
      find (\<lambda>s. Some (fst s) = Some ''102'') [(''102'', ''http://books.toscrape.com/'')]
        = Some (''102'', ''http://books.toscrape.com/'')"
    by (simp add: offline_world_def)
  from scrape_books_fails_as_shipped [OF c n, of "[(''102'', ''http://books.toscrape.com/'')]"
      "Some ''102''" "''102''"] r
  show ?thesis by blast
qed

text \<open>
  C9 as stated fails at the empty base URL: \<open>page_url and ...\<close> is false before
  \<open>MAX_PAGES\<close> is looked up, the loop is skipped, an empty CSV file is written and the
  trigger reports status 200.
\<close>

theorem empty_base_url_succeeds:
  "config empty_url_world = shipped_config \<and>
   scrape_books empty_url_world []
     = \<lparr>csv_path = Some ''scrapping/raw_data/books_data.csv'', requests_made = [],
        csv_file = Some []\<rparr> \<and>
   lambdaHandler_scrapping empty_url_world (Some ''102'')
     = \<lparr>statusCode = 200, message = ''Scraping completed successfully'',
        body_path = Some ''scrapping/raw_data/books_data.csv'', body_error = None\<rparr>"
proof -
  have "config empty_url_world = shipped_config"
    by (simp add: empty_url_world_def offline_world_def)
  moreover have "scrape_books empty_url_world []
     = \<lparr>csv_path = Some ''scrapping/raw_data/books_data.csv'', requests_made = [],
        csv_file = Some []\<rparr>"
    by code_simp
  moreover have "lambdaHandler_scrapping empty_url_world (Some ''102'')
     = \<lparr>statusCode = 200, message = ''Scraping completed successfully'',
        body_path = Some ''scrapping/raw_data/books_data.csv'', body_error = None\<rparr>"
    by code_simp
  ultimately show ?thesis by (intro conjI)
qed

subsection \<open>The requests of the crawl loop\<close>












subsection \<open>Every entry of a fetched page\<close>







subsection \<open>C6: the page ceiling\<close>



subsection \<open>C7: a listing page that cannot be fetched\<close>

text \<open>
  C7. When the fetch of a listing page fails, the loop ends at once: that one
  request is the last (no retry), and the records accumulated so far are its
  result. A run that has reached this state hands exactly these records to the
  writing of the CSV file, and they are written when the file can be written.
\<close>

theorem listing_failure_keeps_records:
  assumes "MAX_PAGES (config w) = Some m" and "u \<noteq> []" and "page_count < m"
    and "http w (length reqs) u = Failed"
  shows "crawl_loop w base_url (Some u) page_count books_data reqs
           = (Inr books_data, reqs @ [ListingGet u]) \<and>
         (crawl_loop w base_url (Some base_url) 0 [] []
            = crawl_loop w base_url (Some u) page_count books_data reqs \<longrightarrow>
          scrape_books w base_url = save_csv w books_data (reqs @ [ListingGet u])) \<and>
         (can_write_csv w \<longrightarrow>
          save_csv w books_data (reqs @ [ListingGet u])
            = \<lparr>csv_path = Some (path_join (raw_data_dir w) ''books_data.csv''),
               requests_made = reqs @ [ListingGet u], csv_file = Some books_data\<rparr>)"
proof -
  from assms(4) have "crawl_iteration w base_url u page_count books_data reqs
      = Break books_data (reqs @ [ListingGet u])"
    by (simp add: crawl_iteration_def)
  with assms have loop: "crawl_loop w base_url (Some u) page_count books_data reqs
      = (Inr books_data, reqs @ [ListingGet u])"
    by (subst crawl_loop.simps) simp
  then show ?thesis
    by (simp add: scrape_books_def save_csv_def)
qed

text \<open>
  The theorem on the catalogue of two pages: the fetch of the second page fails,
  and the record of the first page is written.
\<close>

theorem listing_failure_keeps_records_example:
  "scrape_books (second_page_down 50) catalogue_url
     = \<lparr>csv_path = Some ''scrapping/raw_data/books_data.csv'',
        requests_made = [ListingGet catalogue_url, DetailGet attic_url, ListingGet second_page_url],
        csv_file = Some [attic_record]\<rparr>"
proof -
  have m: "MAX_PAGES (config (second_page_down 50)) = Some 50"
    by (simp add: second_page_down_def)
  have u: "second_page_url \<noteq> []"
    by (simp add: second_page_url_def)
  have lt: "(1::int) < 50"
    by simp
  have failed: "http (second_page_down 50) (length [ListingGet catalogue_url, DetailGet attic_url])
      second_page_url = Failed"
    by code_simp
  have reached: "crawl_loop (second_page_down 50) catalogue_url (Some catalogue_url) 0 [] []
      = crawl_loop (second_page_down 50) catalogue_url (Some second_page_url) 1 [attic_record]
          [ListingGet catalogue_url, DetailGet attic_url]"
    by code_simp
  have w: "can_write_csv (second_page_down 50)"
    and p: "path_join (raw_data_dir (second_page_down 50)) ''books_data.csv''
      = ''scrapping/raw_data/books_data.csv''"
    by code_simp+
  from listing_failure_keeps_records [OF m u lt failed, of catalogue_url "[attic_record]"]
    reached w p
  show ?thesis
    by simp
qed

end
